theory Spec2Isabelle
  imports Complex_Main
begin

section \<open>Strings and word counting\<close>

text \<open>
  A JavaScript string is a sequence of UTF-16 code units; a code unit is modelled by its
  numeric value.  \<open>js\<close> turns an ASCII literal into such a sequence.
\<close>

type_synonym jsstring = "nat list"

definition js :: "string \<Rightarrow> jsstring" where
  "js s = map of_char s"

text \<open>
  The characters removed by \<open>String.prototype.trim\<close> and matched by the regular
  expression class \<open>\s\<close>: TAB, LF, VT, FF, CR, SPACE, NBSP, U+1680, U+2000 to U+200A,
  U+2028, U+2029, U+202F, U+205F, U+3000 and U+FEFF.
\<close>

definition isWhiteSpace :: "nat \<Rightarrow> bool" where
  "isWhiteSpace c \<longleftrightarrow>
     c = 9 \<or> c = 10 \<or> c = 11 \<or> c = 12 \<or> c = 13 \<or> c = 32 \<or> c = 160 \<or> c = 5760 \<or>
     (8192 \<le> c \<and> c \<le> 8202) \<or> c = 8232 \<or> c = 8233 \<or> c = 8239 \<or> c = 8287 \<or>
     c = 12288 \<or> c = 65279"

definition trim :: "jsstring \<Rightarrow> jsstring" where
  "trim s = rev (dropWhile isWhiteSpace (rev (dropWhile isWhiteSpace s)))"

text \<open>
  \<open>s.split(/\s+/)\<close>: the string is scanned from the left; at a white-space character the
  piece collected so far is emitted and the whole run of white space is skipped (the
  pattern is greedy); the piece after the last separator is emitted at the end, also when
  it is empty.  The first argument is the piece collected so far.
\<close>

function split_ws :: "jsstring \<Rightarrow> jsstring \<Rightarrow> jsstring list" where
  "split_ws cur [] = [cur]"
| "split_ws cur (c # cs) =
     (if isWhiteSpace c then cur # split_ws [] (dropWhile isWhiteSpace cs)
      else split_ws (cur @ [c]) cs)"
  by pat_completeness auto
termination
  by (relation "measure (\<lambda>(cur, s). length s)")
     (auto simp: less_Suc_eq_le length_dropWhile_le)

text \<open>
  \<^verbatim>\<open>
  const countWords = (text) => {
    const trimmed = text.trim();
    if (!trimmed) return 0;
    return trimmed.split(/\s+/).length;
  };
  \<close>
\<close>

definition countWords :: "jsstring \<Rightarrow> nat" where
  "countWords text =
     (let trimmed = trim text
      in if trimmed = [] then 0 else length (split_ws [] trimmed))"

text \<open>
  The word count in the words of the specification: the number of maximal runs of
  characters that are not white space.  A run starts at every character that is not white
  space and is the first of the text or follows a white-space character; the flag tells
  whether the previous character belongs to a run.
\<close>

fun runs_from :: "bool \<Rightarrow> jsstring \<Rightarrow> nat" where
  "runs_from inrun [] = 0"
| "runs_from inrun (c # cs) =
     (if isWhiteSpace c then runs_from False cs
      else (if inrun then 0 else 1) + runs_from True cs)"

definition nonspace_runs :: "jsstring \<Rightarrow> nat" where
  "nonspace_runs s = runs_from False s"


section \<open>The page: state, elements, host timers and storage\<close>

text \<open>
  Times are \<open>Date.now()\<close> values: integers, in milliseconds.  JavaScript numbers that are
  not times (seconds, percentages, pixels) are modelled as real numbers.  A timer handle is
  the positive integer returned by \<open>setTimeout\<close> or \<open>setInterval\<close>; \<open>null\<close> is \<open>None\<close>.
\<close>

datatype callback =
    GraceElapsed        \<comment> \<open>the arrow function passed to \<open>setTimeout\<close> in \<open>startCountdown\<close>\<close>
  | CountdownSample     \<comment> \<open>the arrow function passed to \<open>setInterval\<close> in \<open>beginActiveCountdown\<close>\<close>
  | ElapsedTick         \<comment> \<open>the arrow function passed to \<open>setInterval\<close> in \<open>startElapsedTimer\<close>\<close>
  | DeletedFlashEnd     \<comment> \<open>removes the class \<open>deleted\<close> 500 ms after a deletion\<close>
  | SaveLabelRestore    \<comment> \<open>restores the label of the save button after 2 s\<close>

record 'f timer =
  tid :: nat
  due :: int
  period :: "int option"   \<comment> \<open>\<open>None\<close> for \<open>setTimeout\<close>, the interval for \<open>setInterval\<close>\<close>
  callback :: 'f

record entry =
  entry_id :: int
  entry_text :: jsstring
  entry_wordCount :: nat
  entry_savedAt :: int

record draft =
  draft_text :: jsstring
  draft_wordCount :: nat
  draft_savedAt :: int

text \<open>
  The settings object in the store.  Its \<open>timeout\<close> is \<open>None\<close> when the key is missing or
  \<open>null\<close>, and a number otherwise; values of other JSON types are outside the model.
\<close>

record settings =
  settings_timeout :: "real option"
  settings_lightMode :: bool

text \<open>
  What an observer of the page sees the engine do; the log is instrumentation, no function
  of the page reads it.
\<close>

datatype obs =
    SessionStarted
  | DecayTick real real bool      \<comment> \<open>progress, remaining seconds, heartbeat\<close>
  | TextDestroyed jsstring nat    \<comment> \<open>final text, word count\<close>
  | Archived jsstring nat         \<comment> \<open>a call of \<open>saveToHistory\<close>\<close>

record world =
  \<comment> \<open>the object \<open>state\<close>\<close>
  isActive :: bool
  countdownActive :: bool
  startTime :: "int option"
  countdownStart :: "int option"
  timeoutSeconds :: real
  graceTimerId :: "nat option"
  countdownTimerId :: "nat option"
  elapsedTimerId :: "nat option"
  heartbeatCount :: int
  lastBeatTime :: int
  \<comment> \<open>the elements; a text field holds the number that is formatted into it\<close>
  textArea_value :: jsstring
  textArea_filter :: "real option"     \<comment> \<open>\<open>None\<close> is \<open>none\<close>, \<open>Some b\<close> is \<open>blur(b px)\<close>\<close>
  textArea_disabled :: bool
  textArea_deleted :: bool
  startButton_shown :: bool
  wordCount_text :: nat
  elapsedTime_text :: real
  pauseTimer_text :: real
  progressBar_width :: real            \<comment> \<open>per cent\<close>
  progressContainer_active :: bool
  editorWrapper_countdown :: bool      \<comment> \<open>class \<open>countdown-active\<close>\<close>
  editorWrapper_heartbeat :: bool      \<comment> \<open>class \<open>heartbeat\<close>\<close>
  saveButton_disabled :: bool
  resetButton_disabled :: bool
  timeoutDisplay_text :: real
  lightMode :: bool
  \<comment> \<open>the host\<close>
  now :: int
  timers :: "callback timer list"
  nextTimerId :: nat
  \<comment> \<open>\<open>localStorage\<close>\<close>
  stored_draft :: "draft option"
  stored_settings :: "settings option"
  history :: "entry list"
  \<comment> \<open>instrumentation\<close>
  log :: "obs list"

definition DEFAULT_TIMEOUT :: real where "DEFAULT_TIMEOUT = 5"
definition MAX_HISTORY :: nat where "MAX_HISTORY = 20"
definition COUNTDOWN_INTERVAL :: int where "COUNTDOWN_INTERVAL = 100"

subsection \<open>The timer service\<close>

definition setTimeout :: "callback \<Rightarrow> int \<Rightarrow> world \<Rightarrow> nat \<times> world" where
  "setTimeout f delay w =
     (nextTimerId w,
      w\<lparr>timers := timers w @ [\<lparr>tid = nextTimerId w, due = now w + delay, period = None, callback = f\<rparr>],
        nextTimerId := nextTimerId w + 1\<rparr>)"

definition setInterval :: "callback \<Rightarrow> int \<Rightarrow> world \<Rightarrow> nat \<times> world" where
  "setInterval f delay w =
     (nextTimerId w,
      w\<lparr>timers := timers w @ [\<lparr>tid = nextTimerId w, due = now w + delay, period = Some delay, callback = f\<rparr>],
        nextTimerId := nextTimerId w + 1\<rparr>)"

definition clearTimeout :: "nat \<Rightarrow> world \<Rightarrow> world" where
  "clearTimeout i w = w\<lparr>timers := filter (\<lambda>t. tid t \<noteq> i) (timers w)\<rparr>"

definition clearInterval :: "nat \<Rightarrow> world \<Rightarrow> world" where
  "clearInterval i w = w\<lparr>timers := filter (\<lambda>t. tid t \<noteq> i) (timers w)\<rparr>"

text \<open>\<open>x - null\<close> is \<open>x - 0\<close> in JavaScript.\<close>

definition toNumber :: "int option \<Rightarrow> int" where
  "toNumber x = (case x of None \<Rightarrow> 0 | Some n \<Rightarrow> n)"


section \<open>Timer and countdown\<close>

text \<open>
  Each function of the page takes the world and returns the world it leaves.  A test
  \<open>if (state.graceTimerId)\<close> of a handle is a test against \<open>null\<close>, handles being positive.
\<close>

definition clearAllTimers :: "world \<Rightarrow> world" where
  "clearAllTimers w =
     (let w1 = (case graceTimerId w of
                  Some i \<Rightarrow> (clearTimeout i w)\<lparr>graceTimerId := None\<rparr>
                | None \<Rightarrow> w);
          w2 = (case countdownTimerId w1 of
                  Some i \<Rightarrow> (clearInterval i w1)\<lparr>countdownTimerId := None\<rparr>
                | None \<Rightarrow> w1)
      in (case elapsedTimerId w2 of
            Some i \<Rightarrow> (clearInterval i w2)\<lparr>elapsedTimerId := None\<rparr>
          | None \<Rightarrow> w2))"

definition startElapsedTimer :: "world \<Rightarrow> world" where
  "startElapsedTimer w =
     (let (i, w1) = setInterval ElapsedTick 1000 w
      in w1\<lparr>elapsedTimerId := Some i\<rparr>)"

text \<open>The callback of the elapsed-time interval; \<open>state.startTime\<close> is tested for truth.\<close>

definition elapsedTick :: "world \<Rightarrow> world" where
  "elapsedTick w =
     (case startTime w of
        Some s \<Rightarrow>
          if s \<noteq> 0 \<and> isActive w
          then w\<lparr>elapsedTime_text := real_of_int (now w - s) / 1000\<rparr>
          else w
      | None \<Rightarrow> w)"

text \<open>
  \<^verbatim>\<open>
  const startCountdown = () => {
    if (state.graceTimerId) {
      clearTimeout(state.graceTimerId);
      state.graceTimerId = null;
    }
    state.graceTimerId = setTimeout(() => {
      state.graceTimerId = null;
      beginActiveCountdown();
    }, 1000);
  };
  \<close>
\<close>

definition startCountdown :: "world \<Rightarrow> world" where
  "startCountdown w =
     (let w1 = (case graceTimerId w of
                  Some i \<Rightarrow> (clearTimeout i w)\<lparr>graceTimerId := None\<rparr>
                | None \<Rightarrow> w);
          (i, w2) = setTimeout GraceElapsed 1000 w1
      in w2\<lparr>graceTimerId := Some i\<rparr>)"

definition triggerHeartbeat :: "world \<Rightarrow> world" where
  "triggerHeartbeat w = w\<lparr>editorWrapper_heartbeat := True\<rparr>"

definition saveToHistory :: "jsstring \<Rightarrow> nat \<Rightarrow> world \<Rightarrow> world" where
  "saveToHistory text wordCount w =
     w\<lparr>history :=
         take MAX_HISTORY
           (\<lparr>entry_id = now w, entry_text = text, entry_wordCount = wordCount,
             entry_savedAt = now w\<rparr> # history w),
       log := log w @ [Archived text wordCount]\<rparr>"

text \<open>
  \<^verbatim>\<open>
  const handleTextDeletion = () => {
    const text = elements.textArea.value.trim();
    const words = countWords(text);
    if (text.length > 0 && words >= 3) {
      saveToHistory(text, words);
    }
    clearAllTimers();
    state.isActive = false;
    state.countdownActive = false;
    state.startTime = null;
    elements.textArea.value = '';
    ...
    setTimeout(() => { elements.textArea.classList.remove('deleted'); }, 500);
  };
  \<close>
\<close>

definition handleTextDeletion :: "world \<Rightarrow> world" where
  "handleTextDeletion w =
     (let text = trim (textArea_value w);
          words = countWords text;
          w0 = w\<lparr>log := log w @ [TextDestroyed text words]\<rparr>;
          w1 = (if length text > 0 \<and> words \<ge> 3 then saveToHistory text words w0 else w0);
          w2 = clearAllTimers w1;
          w3 = w2\<lparr>isActive := False, countdownActive := False, startTime := None,
                 textArea_value := [], textArea_filter := None, textArea_disabled := True,
                 startButton_shown := True, wordCount_text := 0, elapsedTime_text := 0,
                 pauseTimer_text := timeoutSeconds w2, progressBar_width := 100,
                 progressContainer_active := False, editorWrapper_countdown := False,
                 editorWrapper_heartbeat := False, saveButton_disabled := True,
                 resetButton_disabled := True, textArea_deleted := True\<rparr>
      in snd (setTimeout DeletedFlashEnd 500 w3))"

text \<open>
  The callback of the sampling interval of \<open>beginActiveCountdown\<close>:
  \<^verbatim>\<open>
      const elapsed = (Date.now() - state.countdownStart) / 1000;
      const remaining = Math.max(0, state.timeoutSeconds - elapsed);
      const progress = remaining / state.timeoutSeconds;
      elements.progressBar.style.width = `${progress * 100}%`;
      elements.pauseTimer.textContent = `${remaining.toFixed(1)}s`;
      const baseBlur = (1 - progress) * 10;
      const timeSinceBeat = (Date.now() - state.lastBeatTime) / 1000;
      const beatPulse = timeSinceBeat < 0.6
        ? Math.sin(timeSinceBeat / 0.6 * Math.PI) * (6 + baseBlur * 0.5)
        : 0;
      elements.textArea.style.filter = `blur(${baseBlur + beatPulse}px)`;
      const currentBeat = Math.floor(elapsed);
      if (currentBeat > state.heartbeatCount) {
        state.heartbeatCount = currentBeat;
        state.lastBeatTime = Date.now();
        triggerHeartbeat();
      }
      if (remaining <= 0) {
        handleTextDeletion();
      }
  \<close>
  The quantities of one sample are functions of the world at the sample.
\<close>

definition elapsed :: "world \<Rightarrow> real" where
  "elapsed w = real_of_int (now w - toNumber (countdownStart w)) / 1000"

definition remaining :: "world \<Rightarrow> real" where
  "remaining w = max 0 (timeoutSeconds w - elapsed w)"

definition progress :: "world \<Rightarrow> real" where
  "progress w = remaining w / timeoutSeconds w"

definition baseBlur :: "world \<Rightarrow> real" where
  "baseBlur w = (1 - progress w) * 10"

definition beatPulse :: "world \<Rightarrow> real" where
  "beatPulse w =
     (let timeSinceBeat = real_of_int (now w - lastBeatTime w) / 1000
      in if timeSinceBeat < 0.6
         then sin (timeSinceBeat / 0.6 * pi) * (6 + baseBlur w * 0.5)
         else 0)"

definition countdownSample :: "world \<Rightarrow> world" where
  "countdownSample w =
     (let beat = (\<lfloor>elapsed w\<rfloor> > heartbeatCount w);
          w1 = w\<lparr>progressBar_width := progress w * 100,
                pauseTimer_text := remaining w,
                textArea_filter := Some (baseBlur w + beatPulse w),
                log := log w @ [DecayTick (progress w) (remaining w) beat]\<rparr>;
          w2 = (if beat
                then triggerHeartbeat (w1\<lparr>heartbeatCount := \<lfloor>elapsed w\<rfloor>, lastBeatTime := now w\<rparr>)
                else w1)
      in if remaining w \<le> 0 then handleTextDeletion w2 else w2)"

text \<open>
  \<^verbatim>\<open>
  const beginActiveCountdown = () => {
    state.countdownActive = true;
    state.countdownStart = Date.now();
    state.heartbeatCount = 0;
    state.lastBeatTime = 0;
    elements.progressContainer.classList.add('active');
    elements.editorWrapper.classList.add('countdown-active');
    state.lastBeatTime = Date.now();
    triggerHeartbeat();
    state.countdownTimerId = setInterval(() => { ... }, CONFIG.COUNTDOWN_INTERVAL);
  };
  \<close>
\<close>

definition beginActiveCountdown :: "world \<Rightarrow> world" where
  "beginActiveCountdown w =
     (let w1 = w\<lparr>countdownActive := True, countdownStart := Some (now w),
                heartbeatCount := 0, lastBeatTime := 0,
                progressContainer_active := True, editorWrapper_countdown := True\<rparr>;
          w2 = triggerHeartbeat (w1\<lparr>lastBeatTime := now w\<rparr>);
          (i, w3) = setInterval CountdownSample COUNTDOWN_INTERVAL w2
      in w3\<lparr>countdownTimerId := Some i\<rparr>)"

text \<open>The callback of the grace timeout of \<open>startCountdown\<close>.\<close>

definition graceElapsed :: "world \<Rightarrow> world" where
  "graceElapsed w = beginActiveCountdown (w\<lparr>graceTimerId := None\<rparr>)"

text \<open>
  \<^verbatim>\<open>
  const stopCountdown = () => {
    if (state.graceTimerId) { clearTimeout(state.graceTimerId); state.graceTimerId = null; }
    if (state.countdownTimerId) { clearInterval(state.countdownTimerId); state.countdownTimerId = null; }
    state.countdownActive = false;
    state.countdownStart = null;
    state.heartbeatCount = 0;
    elements.textArea.style.filter = 'none';
    elements.progressBar.style.width = '100%';
    elements.progressContainer.classList.remove('active');
    elements.editorWrapper.classList.remove('countdown-active', 'heartbeat');
    elements.pauseTimer.textContent = `${state.timeoutSeconds.toFixed(1)}s`;
  };
  \<close>
\<close>

definition stopCountdown :: "world \<Rightarrow> world" where
  "stopCountdown w =
     (let w1 = (case graceTimerId w of
                  Some i \<Rightarrow> (clearTimeout i w)\<lparr>graceTimerId := None\<rparr>
                | None \<Rightarrow> w);
          w2 = (case countdownTimerId w1 of
                  Some i \<Rightarrow> (clearInterval i w1)\<lparr>countdownTimerId := None\<rparr>
                | None \<Rightarrow> w1)
      in w2\<lparr>countdownActive := False, countdownStart := None, heartbeatCount := 0,
            textArea_filter := None, progressBar_width := 100,
            progressContainer_active := False, editorWrapper_countdown := False,
            editorWrapper_heartbeat := False, pauseTimer_text := timeoutSeconds w2\<rparr>)"

section \<open>Core logic\<close>

text \<open>
  \<open>startSession\<close> takes \<open>Some text\<close> when it is called with a string and \<open>None\<close> when it is
  called without argument (the start button).
\<close>

definition startSession :: "jsstring option \<Rightarrow> world \<Rightarrow> world" where
  "startSession initialText w =
     (let w1 = w\<lparr>isActive := True, startTime := Some (now w),
                textArea_disabled := False,
                textArea_value := (case initialText of Some t \<Rightarrow> t | None \<Rightarrow> []),
                wordCount_text := (case initialText of Some t \<Rightarrow> countWords t
                                   | None \<Rightarrow> wordCount_text w),
                startButton_shown := False, saveButton_disabled := False,
                resetButton_disabled := False,
                log := log w @ [SessionStarted]\<rparr>
      in startCountdown (startElapsedTimer w1))"

text \<open>
  \<^verbatim>\<open>
  const handleInput = () => {
    stopCountdown();
    const words = countWords(elements.textArea.value);
    elements.wordCount.textContent = words.toString();
    startCountdown();
  };
  \<close>
\<close>

definition handleInput :: "world \<Rightarrow> world" where
  "handleInput w =
     (let w1 = stopCountdown w
      in startCountdown (w1\<lparr>wordCount_text := countWords (textArea_value w1)\<rparr>))"

definition resetSession :: "world \<Rightarrow> world" where
  "resetSession w =
     (let w1 = stopCountdown (clearAllTimers w)
      in w1\<lparr>isActive := False, startTime := None,
            textArea_value := [], textArea_filter := None, textArea_disabled := True,
            startButton_shown := True, wordCount_text := 0, elapsedTime_text := 0,
            pauseTimer_text := timeoutSeconds w1, progressBar_width := 100,
            progressContainer_active := False, editorWrapper_countdown := False,
            editorWrapper_heartbeat := False, saveButton_disabled := True,
            resetButton_disabled := True\<rparr>)"


section \<open>History, storage and settings\<close>

text \<open>
  \<open>localStorage\<close> holds the draft, the settings and the history as JSON; the model keeps
  the parsed values and takes every write to succeed.
\<close>

definition continueFromHistory :: "int \<Rightarrow> world \<Rightarrow> world" where
  "continueFromHistory i w =
     (case find (\<lambda>h. entry_id h = i) (history w) of
        Some e \<Rightarrow> startSession (Some (entry_text e)) (if isActive w then resetSession w else w)
      | None \<Rightarrow> w)"

definition deleteFromHistory :: "int \<Rightarrow> world \<Rightarrow> world" where
  "deleteFromHistory i w = w\<lparr>history := filter (\<lambda>h. entry_id h \<noteq> i) (history w)\<rparr>"

definition clearHistory :: "world \<Rightarrow> world" where
  "clearHistory w = w\<lparr>history := []\<rparr>"

definition saveDraft :: "world \<Rightarrow> world" where
  "saveDraft w =
     (let text = textArea_value w;
          words = countWords text;
          w1 = w\<lparr>stored_draft :=
                  Some \<lparr>draft_text = text, draft_wordCount = words, draft_savedAt = now w\<rparr>\<rparr>;
          w2 = (if length (trim text) > 0 \<and> words \<ge> 3 then saveToHistory text words w1 else w1)
      in snd (setTimeout SaveLabelRestore 2000 w2))"

text \<open>
  \<^verbatim>\<open>
  const loadDraft = () => {
    try {
      const saved = localStorage.getItem(CONFIG.STORAGE_KEY);
      if (saved) {
        const draft = JSON.parse(saved);
        if (draft.text) {
          startSession(draft.text);
        }
      }
    } catch (error) { ... }
  };
  \<close>
\<close>

definition loadDraft :: "world \<Rightarrow> world" where
  "loadDraft w =
     (case stored_draft w of
        Some d \<Rightarrow> if draft_text d \<noteq> [] then startSession (Some (draft_text d)) w else w
      | None \<Rightarrow> w)"

definition saveSettings :: "world \<Rightarrow> world" where
  "saveSettings w =
     w\<lparr>stored_settings :=
         Some \<lparr>settings_timeout = Some (timeoutSeconds w), settings_lightMode = lightMode w\<rparr>\<rparr>"

text \<open>
  \<^verbatim>\<open>
  const loadSettings = () => {
    try {
      const saved = localStorage.getItem(CONFIG.SETTINGS_KEY);
      if (saved) {
        const settings = JSON.parse(saved);
        state.timeoutSeconds = settings.timeout || CONFIG.DEFAULT_TIMEOUT;
        elements.timeoutSetting.value = state.timeoutSeconds;
        elements.pauseTimer.textContent = `${state.timeoutSeconds.toFixed(1)}s`;
        if (elements.timeoutDisplay) {
          elements.timeoutDisplay.textContent = state.timeoutSeconds;
        }
        if (settings.lightMode) {
          document.body.classList.add('light-mode');
        }
      }
    } catch (error) { ... }
  };
  \<close>
  \<open>settings.timeout || CONFIG.DEFAULT_TIMEOUT\<close> is the default when the stored value is
  missing, \<open>null\<close> or zero, and the stored value otherwise.
\<close>

definition loadSettings :: "world \<Rightarrow> world" where
  "loadSettings w =
     (case stored_settings w of
        Some s \<Rightarrow>
          (let t = (case settings_timeout s of
                      Some v \<Rightarrow> if v \<noteq> 0 then v else DEFAULT_TIMEOUT
                    | None \<Rightarrow> DEFAULT_TIMEOUT)
           in w\<lparr>timeoutSeconds := t, pauseTimer_text := t, timeoutDisplay_text := t,
                lightMode := (lightMode w \<or> settings_lightMode s)\<rparr>)
      | None \<Rightarrow> w)"

section \<open>Event handlers\<close>

text \<open>
  \<open>parseInt(s, 10)\<close>: leading white space is skipped, then an optional sign and the longest
  run of decimal digits are read; without a digit the result is \<open>NaN\<close>, here \<open>None\<close>.
\<close>

definition isDigit :: "nat \<Rightarrow> bool" where
  "isDigit c \<longleftrightarrow> 48 \<le> c \<and> c \<le> 57"

definition digitsValue :: "jsstring \<Rightarrow> int" where
  "digitsValue ds = foldl (\<lambda>acc c. 10 * acc + (int c - 48)) 0 ds"

definition parseInt :: "jsstring \<Rightarrow> int option" where
  "parseInt s =
     (let s1 = dropWhile isWhiteSpace s;
          neg = (case s1 of c # _ \<Rightarrow> c = 45 | [] \<Rightarrow> False);
          s2 = (case s1 of c # cs \<Rightarrow> if c = 45 \<or> c = 43 then cs else s1 | [] \<Rightarrow> []);
          ds = takeWhile isDigit s2
      in if ds = [] then None
         else Some (if neg then - digitsValue ds else digitsValue ds))"

text \<open>
  \<^verbatim>\<open>
  const handleTimeoutChange = () => {
    const value = parseInt(elements.timeoutSetting.value, 10);
    if (value >= 1 && value <= 30) {
      state.timeoutSeconds = value;
      elements.pauseTimer.textContent = `${state.timeoutSeconds.toFixed(1)}s`;
      if (elements.timeoutDisplay) {
        elements.timeoutDisplay.textContent = state.timeoutSeconds;
      }
      saveSettings();
    }
  };
  \<close>
  The argument is the value of the settings control when the change event fires; a
  comparison with \<open>NaN\<close> is false.
\<close>

definition handleTimeoutChange :: "jsstring \<Rightarrow> world \<Rightarrow> world" where
  "handleTimeoutChange v w =
     (case parseInt v of
        Some value \<Rightarrow>
          if value \<ge> 1 \<and> value \<le> 30
          then saveSettings (w\<lparr>timeoutSeconds := of_int value, pauseTimer_text := of_int value,
                                timeoutDisplay_text := of_int value\<rparr>)
          else w
      | None \<Rightarrow> w)"

definition handleDarkModeToggle :: "world \<Rightarrow> world" where
  "handleDarkModeToggle w = saveSettings (w\<lparr>lightMode := \<not> lightMode w\<rparr>)"

text \<open>The state of the page when the script has been loaded, before \<open>init\<close>.\<close>

definition initial :: "int \<Rightarrow> world" where
  "initial t =
     \<lparr>isActive = False, countdownActive = False, startTime = None, countdownStart = None,
      timeoutSeconds = DEFAULT_TIMEOUT, graceTimerId = None, countdownTimerId = None,
      elapsedTimerId = None, heartbeatCount = 0, lastBeatTime = 0,
      textArea_value = [], textArea_filter = None, textArea_disabled = True,
      textArea_deleted = False, startButton_shown = True, wordCount_text = 0,
      elapsedTime_text = 0, pauseTimer_text = DEFAULT_TIMEOUT, progressBar_width = 100,
      progressContainer_active = False, editorWrapper_countdown = False,
      editorWrapper_heartbeat = False, saveButton_disabled = True,
      resetButton_disabled = True, timeoutDisplay_text = DEFAULT_TIMEOUT, lightMode = False,
      now = t, timers = [], nextTimerId = 1,
      stored_draft = None, stored_settings = None, history = [],
      log = []\<rparr>"

definition init :: "world \<Rightarrow> world" where
  "init w = loadSettings w"

section \<open>The event loop\<close>

text \<open>
  The host runs one task at a time: a user event on an element that accepts it, or the
  callback of a pending timer whose time has come.  A timeout is removed before its
  callback runs; an interval is scheduled again, one period after the run.
\<close>

datatype event =
    ClickStart
  | Input jsstring          \<comment> \<open>the text area holds the given text after the edit\<close>
  | ClickSave
  | ClickLoad
  | ClickReset
  | KeyEscape
  | ChangeTimeout jsstring
  | ToggleDarkMode
  | ClickContinue int
  | ClickDelete int
  | ClickClearHistory
  | TimerFires nat

definition runCallback :: "callback \<Rightarrow> world \<Rightarrow> world" where
  "runCallback f w =
     (case f of
        GraceElapsed \<Rightarrow> graceElapsed w
      | CountdownSample \<Rightarrow> countdownSample w
      | ElapsedTick \<Rightarrow> elapsedTick w
      | DeletedFlashEnd \<Rightarrow> w\<lparr>textArea_deleted := False\<rparr>
      | SaveLabelRestore \<Rightarrow> w)"

definition fire :: "nat \<Rightarrow> world \<Rightarrow> world option" where
  "fire i w =
     (case find (\<lambda>t. tid t = i) (timers w) of
        None \<Rightarrow> None
      | Some t \<Rightarrow>
          if now w < due t then None
          else Some (runCallback (callback t)
                 (w\<lparr>timers :=
                      (case period t of
                         None \<Rightarrow> filter (\<lambda>u. tid u \<noteq> i) (timers w)
                       | Some p \<Rightarrow> map (\<lambda>u. if tid u = i then u\<lparr>due := now w + p\<rparr> else u)
                                    (timers w))\<rparr>)))"

definition handle :: "event \<Rightarrow> world \<Rightarrow> world option" where
  "handle ev w =
     (case ev of
        ClickStart \<Rightarrow> if startButton_shown w then Some (startSession None w) else None
      | Input text \<Rightarrow>
          if textArea_disabled w then None else Some (handleInput (w\<lparr>textArea_value := text\<rparr>))
      | ClickSave \<Rightarrow> if saveButton_disabled w then None else Some (saveDraft w)
      | ClickLoad \<Rightarrow> Some (loadDraft w)
      | ClickReset \<Rightarrow> if resetButton_disabled w then None else Some (resetSession w)
      | KeyEscape \<Rightarrow> Some (if isActive w then resetSession w else w)
      | ChangeTimeout v \<Rightarrow> Some (handleTimeoutChange v w)
      | ToggleDarkMode \<Rightarrow> Some (handleDarkModeToggle w)
      | ClickContinue i \<Rightarrow> Some (continueFromHistory i w)
      | ClickDelete i \<Rightarrow> Some (deleteFromHistory i w)
      | ClickClearHistory \<Rightarrow> Some (clearHistory w)
      | TimerFires i \<Rightarrow> fire i w)"

text \<open>
  A run is a list of events with the times at which the host dispatches them; it is
  \<open>None\<close> when the clock would go back or the host could not dispatch an event.
\<close>

fun run :: "(int \<times> event) list \<Rightarrow> world \<Rightarrow> world option" where
  "run [] w = Some w"
| "run ((t, ev) # es) w =
     (if t < now w then None
      else case handle ev (w\<lparr>now := t\<rparr>) of
             None \<Rightarrow> None
           | Some w' \<Rightarrow> run es w')"



section \<open>Phases, observations and invariants\<close>




text \<open>The period with which the page schedules each callback.\<close>

definition interval_of :: "callback \<Rightarrow> int option" where
  "interval_of f =
     (case f of
        CountdownSample \<Rightarrow> Some COUNTDOWN_INTERVAL
      | ElapsedTick \<Rightarrow> Some 1000
      | _ \<Rightarrow> None)"

text \<open>
  Every pending engine timer is the one whose handle the state holds; handles are issued
  once, and every timer has the period the page gave it.
\<close>

definition tracked :: "world \<Rightarrow> bool" where
  "tracked w \<longleftrightarrow>
     distinct (map tid (timers w)) \<and>
     (\<forall>t \<in> set (timers w).
        tid t < nextTimerId w \<and>
        period t = interval_of (callback t) \<and>
        (callback t = GraceElapsed \<longrightarrow> graceTimerId w = Some (tid t)) \<and>
        (callback t = CountdownSample \<longrightarrow> countdownTimerId w = Some (tid t)) \<and>
        (callback t = ElapsedTick \<longrightarrow> elapsedTimerId w = Some (tid t)))"

text \<open>The number of pending timers that run a given callback.\<close>

definition pending :: "callback \<Rightarrow> world \<Rightarrow> nat" where
  "pending f w = length (filter (\<lambda>t. callback t = f) (timers w))"

text \<open>No decay is shown: the state of the elements that \<open>stopCountdown\<close> leaves.\<close>

definition no_effect :: "world \<Rightarrow> bool" where
  "no_effect w \<longleftrightarrow>
     \<not> countdownActive w \<and> textArea_filter w = None \<and> progressBar_width w = 100 \<and>
     \<not> progressContainer_active w \<and> \<not> editorWrapper_countdown w \<and>
     \<not> editorWrapper_heartbeat w"

text \<open>No session runs and nothing of the engine is scheduled.\<close>

definition idle :: "world \<Rightarrow> bool" where
  "idle w \<longleftrightarrow>
     tracked w \<and> graceTimerId w = None \<and> countdownTimerId w = None \<and>
     elapsedTimerId w = None \<and> no_effect w"

definition destroyed :: "obs list \<Rightarrow> nat" where
  "destroyed l = length (filter (\<lambda>e. case e of TextDestroyed _ _ \<Rightarrow> True | _ \<Rightarrow> False) l)"

definition ticks :: "obs list \<Rightarrow> nat" where
  "ticks l = length (filter (\<lambda>e. case e of DecayTick _ _ _ \<Rightarrow> True | _ \<Rightarrow> False) l)"

text \<open>What a deletion adds to the log: the event, and the hand-over to the history.\<close>

definition deletion_obs :: "world \<Rightarrow> obs list" where
  "deletion_obs w =
     TextDestroyed (trim (textArea_value w)) (countWords (textArea_value w))
     # (if 3 \<le> countWords (textArea_value w)
        then [Archived (trim (textArea_value w)) (countWords (textArea_value w))] else [])"

text \<open>
  The progress that a sample at time \<open>t\<close> reports in a countdown that began at \<open>s\<close>, with
  a timeout of \<open>T\<close> seconds.
\<close>

definition progress_at :: "real \<Rightarrow> int \<Rightarrow> int \<Rightarrow> real" where
  "progress_at T s t = max 0 (T - real_of_int (t - s) / 1000) / T"

text \<open>The progress values of the samples in a log, in the order of the samples.\<close>

fun tick_progress :: "obs list \<Rightarrow> real list" where
  "tick_progress [] = []"
| "tick_progress (DecayTick p r b # l) = p # tick_progress l"
| "tick_progress (e # l) = tick_progress l"


fun is_timer :: "event \<Rightarrow> bool" where
  "is_timer (TimerFires i) = True"
| "is_timer ev = False"


text \<open>
  A run on a punctual host: no event is dispatched later than a pending timer is due, so
  that every callback runs at the time it was scheduled for.
\<close>

fun run_on_time :: "(int \<times> event) list \<Rightarrow> world \<Rightarrow> world option" where
  "run_on_time [] w = Some w"
| "run_on_time ((t, ev) # es) w =
     (if t < now w \<or> (\<exists>tm \<in> set (timers w). due tm < t) then None
      else case handle ev (w\<lparr>now := t\<rparr>) of
             None \<Rightarrow> None
           | Some w' \<Rightarrow> run_on_time es w')"

text \<open>
  The two phases of a running session.  In the grace phase that began at \<open>a\<close> no sampling
  interval is set and a pending grace timeout is due a second after \<open>a\<close>; in a countdown
  that began at \<open>s\<close> no grace timeout is set.
\<close>

definition in_grace :: "int \<Rightarrow> world \<Rightarrow> bool" where
  "in_grace a w \<longleftrightarrow>
     tracked w \<and> countdownTimerId w = None \<and>
     (\<forall>t \<in> set (timers w). callback t = GraceElapsed \<longrightarrow> due t = a + 1000)"

definition decaying :: "int \<Rightarrow> world \<Rightarrow> bool" where
  "decaying s w \<longleftrightarrow> tracked w \<and> graceTimerId w = None \<and> countdownStart w = Some s"

text \<open>
  The invariant of a session whose latest activity was at time \<open>a\<close>: it is in the grace
  phase that began at \<open>a\<close>, or in a countdown that began no earlier than a second after
  \<open>a\<close>.
\<close>

definition quiet_since :: "int \<Rightarrow> world \<Rightarrow> bool" where
  "quiet_since a w \<longleftrightarrow>
     in_grace a w \<or>
     (case countdownStart w of Some s \<Rightarrow> a + 1000 \<le> s \<and> decaying s w | None \<Rightarrow> False)"

text \<open>
  The world after the updates of one sample, before the test of the deadline: the
  callback of the sampling interval is \<open>handleTextDeletion\<close> after these updates when the
  time is up, and these updates alone otherwise.
\<close>

definition sampled :: "world \<Rightarrow> world" where
  "sampled w =
     w\<lparr>progressBar_width := progress w * 100, pauseTimer_text := remaining w,
       textArea_filter := Some (baseBlur w + beatPulse w),
       log := log w @ [DecayTick (progress w) (remaining w) (heartbeatCount w < \<lfloor>elapsed w\<rfloor>)],
       heartbeatCount := (if heartbeatCount w < \<lfloor>elapsed w\<rfloor> then \<lfloor>elapsed w\<rfloor>
                          else heartbeatCount w),
       lastBeatTime := (if heartbeatCount w < \<lfloor>elapsed w\<rfloor> then now w else lastBeatTime w),
       editorWrapper_heartbeat := (heartbeatCount w < \<lfloor>elapsed w\<rfloor> \<or> editorWrapper_heartbeat w)\<rparr>"

text \<open>After a deletion or a reset: nothing of the countdown is scheduled, and the text area takes no input.\<close>

definition halted :: "world \<Rightarrow> bool" where
  "halted w \<longleftrightarrow>
     tracked w \<and> graceTimerId w = None \<and> countdownTimerId w = None \<and> textArea_disabled w"







text \<open>
  A session in which the writer types three words and saves the draft, on a punctual host,
  up to the first sample of the countdown; the callbacks that follow when the draft is
  loaded at 11250 into the running session, up to the start of the countdown of the
  loaded session; and the callbacks that follow when the saved text is continued from the
  history instead.
\<close>

definition draft_session :: "(int \<times> event) list" where
  "draft_session =
     [(10000, ClickStart), (10100, Input (js ''a b c'')), (10200, ClickSave),
      (11000, TimerFires 1), (11100, TimerFires 3), (11200, TimerFires 5)]"

definition after_load :: "(int \<times> event) list" where
  "after_load =
     [(11300, TimerFires 5), (11400, TimerFires 5), (11500, TimerFires 5), (11600, TimerFires 5),
      (11700, TimerFires 5), (11800, TimerFires 5), (11900, TimerFires 5),
      (12000, TimerFires 1), (12000, TimerFires 5), (12100, TimerFires 5),
      (12200, TimerFires 4), (12200, TimerFires 5),
      (12250, TimerFires 6), (12250, TimerFires 7)]"

definition after_continue :: "(int \<times> event) list" where
  "after_continue = [(12200, TimerFires 4), (12250, TimerFires 6), (12250, TimerFires 7)]"

text \<open>
  The numbers of pending elapsed-time intervals, grace timeouts and sampling intervals.
\<close>

definition chains :: "world \<Rightarrow> nat \<times> nat \<times> nat" where
  "chains w = (pending ElapsedTick w, pending GraceElapsed w, pending CountdownSample w)"


section \<open>The earlier engine of \<open>static/js/main.js\<close>\<close>

text \<open>
  \<open>static/js/main.js\<close> holds an engine of its own, with the same function names; the names
  that clash carry a prime here.  It has no grace period: the pause timeout lasts
  \<open>timeoutSeconds\<close>, and the blur that follows grows by one pixel per tick of 250 ms.
\<close>

datatype callback' =
    PauseElapsed        \<comment> \<open>the arrow function passed to \<open>setTimeout\<close> in \<open>startPauseTimeout\<close>\<close>
  | BlurTick            \<comment> \<open>the arrow function passed to \<open>setInterval\<close> in \<open>startBlurEffect\<close>\<close>
  | ElapsedTick'
  | DeletedFlashEnd'

record page' =
  \<comment> \<open>the object \<open>state\<close>\<close>
  isActive' :: bool
  isPaused :: bool
  startTime' :: "int option"
  pauseTime :: "int option"
  blurAmount :: int
  timeoutSeconds' :: real
  pauseTimerId :: "nat option"
  blurTimerId :: "nat option"
  elapsedTimerId' :: "nat option"
  \<comment> \<open>the elements\<close>
  textArea_value' :: jsstring
  textArea_filter' :: "real option"
  textArea_disabled' :: bool
  textArea_deleted' :: bool
  startButton_shown' :: bool
  wordCount_text' :: nat
  elapsedTime_text' :: real
  pauseTimer_text' :: real
  progressBar_width' :: real
  progressContainer_active' :: bool
  saveButton_disabled' :: bool
  resetButton_disabled' :: bool
  \<comment> \<open>the host\<close>
  now' :: int
  timers' :: "callback' timer list"
  nextTimerId' :: nat
  \<comment> \<open>instrumentation\<close>
  log' :: "obs list"

definition BLUR_INCREMENT :: int where "BLUR_INCREMENT = 1"
definition BLUR_MAX :: int where "BLUR_MAX = 20"
definition TICK_INTERVAL :: int where "TICK_INTERVAL = 250"

text \<open>The delay of a timer is an integer number of milliseconds, and not negative.\<close>

definition toDelay :: "real \<Rightarrow> int" where
  "toDelay x = (if x < 0 then 0 else \<lfloor>x\<rfloor>)"

definition setTimeout' :: "callback' \<Rightarrow> int \<Rightarrow> page' \<Rightarrow> nat \<times> page'" where
  "setTimeout' f delay w =
     (nextTimerId' w,
      w\<lparr>timers' := timers' w @ [\<lparr>tid = nextTimerId' w, due = now' w + delay, period = None, callback = f\<rparr>],
        nextTimerId' := nextTimerId' w + 1\<rparr>)"

definition setInterval' :: "callback' \<Rightarrow> int \<Rightarrow> page' \<Rightarrow> nat \<times> page'" where
  "setInterval' f delay w =
     (nextTimerId' w,
      w\<lparr>timers' := timers' w @ [\<lparr>tid = nextTimerId' w, due = now' w + delay, period = Some delay, callback = f\<rparr>],
        nextTimerId' := nextTimerId' w + 1\<rparr>)"

definition clearTimer' :: "nat \<Rightarrow> page' \<Rightarrow> page'" where
  "clearTimer' i w = w\<lparr>timers' := filter (\<lambda>t. tid t \<noteq> i) (timers' w)\<rparr>"

definition clearAllTimers' :: "page' \<Rightarrow> page'" where
  "clearAllTimers' w =
     (let w1 = (case pauseTimerId w of
                  Some i \<Rightarrow> (clearTimer' i w)\<lparr>pauseTimerId := None\<rparr>
                | None \<Rightarrow> w);
          w2 = (case blurTimerId w1 of
                  Some i \<Rightarrow> (clearTimer' i w1)\<lparr>blurTimerId := None\<rparr>
                | None \<Rightarrow> w1)
      in (case elapsedTimerId' w2 of
            Some i \<Rightarrow> (clearTimer' i w2)\<lparr>elapsedTimerId' := None\<rparr>
          | None \<Rightarrow> w2))"

definition startElapsedTimer' :: "page' \<Rightarrow> page'" where
  "startElapsedTimer' w =
     (let (i, w1) = setInterval' ElapsedTick' 1000 w
      in w1\<lparr>elapsedTimerId' := Some i\<rparr>)"

text \<open>
  \<^verbatim>\<open>
  const handleTextDeletion = () => {
    clearAllTimers();
    state.isActive = false;
    state.isPaused = false;
    state.blurAmount = 0;
    state.startTime = null;
    elements.textArea.value = '';
    ...
    setTimeout(() => { elements.textArea.classList.remove('deleted'); }, 500);
  };
  \<close>
\<close>

definition handleTextDeletion' :: "page' \<Rightarrow> page'" where
  "handleTextDeletion' w =
     (let w0 = w\<lparr>log' := log' w @ [TextDestroyed (textArea_value' w) (countWords (textArea_value' w))]\<rparr>;
          w1 = clearAllTimers' w0;
          w2 = w1\<lparr>isActive' := False, isPaused := False, blurAmount := 0, startTime' := None,
                 textArea_value' := [], textArea_filter' := None, textArea_disabled' := True,
                 startButton_shown' := True, wordCount_text' := 0, elapsedTime_text' := 0,
                 pauseTimer_text' := timeoutSeconds' w1, progressBar_width' := 100,
                 progressContainer_active' := False, saveButton_disabled' := True,
                 resetButton_disabled' := True, textArea_deleted' := True\<rparr>
      in snd (setTimeout' DeletedFlashEnd' 500 w2))"

text \<open>
  The callback of the interval of \<open>startBlurEffect\<close>:
  \<^verbatim>\<open>
      state.blurAmount += CONFIG.BLUR_INCREMENT;
      elements.textArea.style.filter = `blur(${state.blurAmount}px)`;
      const progress = (state.blurAmount / CONFIG.BLUR_MAX) * 100;
      elements.progressBar.style.width = `${100 - progress}%`;
      const timeLeft = Math.max(0, state.timeoutSeconds
        - (state.blurAmount / CONFIG.BLUR_MAX) * state.timeoutSeconds);
      elements.pauseTimer.textContent = `${timeLeft.toFixed(1)}s`;
      if (state.blurAmount >= CONFIG.BLUR_MAX) {
        handleTextDeletion();
      }
  \<close>
\<close>

definition blurTick :: "page' \<Rightarrow> page'" where
  "blurTick w =
     (let b = blurAmount w + BLUR_INCREMENT;
          progress = (real_of_int b / real_of_int BLUR_MAX) * 100;
          timeLeft = max 0 (timeoutSeconds' w
                             - (real_of_int b / real_of_int BLUR_MAX) * timeoutSeconds' w);
          w1 = w\<lparr>blurAmount := b, textArea_filter' := Some (real_of_int b),
                progressBar_width' := 100 - progress, pauseTimer_text' := timeLeft,
                log' := log' w @ [DecayTick ((100 - progress) / 100) timeLeft False]\<rparr>
      in if b \<ge> BLUR_MAX then handleTextDeletion' w1 else w1)"

definition startBlurEffect :: "page' \<Rightarrow> page'" where
  "startBlurEffect w =
     (let w1 = w\<lparr>isPaused := True, pauseTime := Some (now' w), progressContainer_active' := True\<rparr>;
          (i, w2) = setInterval' BlurTick TICK_INTERVAL w1
      in w2\<lparr>blurTimerId := Some i\<rparr>)"


text \<open>
  \<^verbatim>\<open>
  const startPauseTimeout = () => {
    if (state.pauseTimerId) {
      clearTimeout(state.pauseTimerId);
    }
    state.pauseTimerId = setTimeout(() => {
      startBlurEffect();
    }, state.timeoutSeconds * 1000);
  };
  \<close>
\<close>

definition startPauseTimeout :: "page' \<Rightarrow> page'" where
  "startPauseTimeout w =
     (let w1 = (case pauseTimerId w of Some i \<Rightarrow> clearTimer' i w | None \<Rightarrow> w);
          (i, w2) = setTimeout' PauseElapsed (toDelay (timeoutSeconds' w1 * 1000)) w1
      in w2\<lparr>pauseTimerId := Some i\<rparr>)"

definition startSession' :: "page' \<Rightarrow> page'" where
  "startSession' w =
     (let w1 = w\<lparr>isActive' := True, startTime' := Some (now' w),
                textArea_disabled' := False, textArea_value' := [],
                startButton_shown' := False, saveButton_disabled' := False,
                resetButton_disabled' := False,
                log' := log' w @ [SessionStarted]\<rparr>
      in startPauseTimeout (startElapsedTimer' w1))"



definition initial' :: "int \<Rightarrow> page'" where
  "initial' t =
     \<lparr>isActive' = False, isPaused = False, startTime' = None, pauseTime = None,
      blurAmount = 0, timeoutSeconds' = 5, pauseTimerId = None, blurTimerId = None,
      elapsedTimerId' = None,
      textArea_value' = [], textArea_filter' = None, textArea_disabled' = True,
      textArea_deleted' = False, startButton_shown' = True, wordCount_text' = 0,
      elapsedTime_text' = 0, pauseTimer_text' = 5, progressBar_width' = 100,
      progressContainer_active' = False, saveButton_disabled' = True,
      resetButton_disabled' = True,
      now' = t, timers' = [], nextTimerId' = 1, log' = []\<rparr>"

text \<open>
  The earlier page with a timeout of 1 s: a session starts at 0, the pause timeout runs at
  1000 and the blur ticks at 1250, 1500, 1750 and 2000.
\<close>

definition blurred :: "page'" where
  "blurred =
     blurTick ((blurTick ((blurTick ((blurTick
       ((startBlurEffect ((startSession' ((initial' 0)\<lparr>timeoutSeconds' := 1\<rparr>))\<lparr>now' := 1000\<rparr>))
          \<lparr>now' := 1250\<rparr>))\<lparr>now' := 1500\<rparr>))\<lparr>now' := 1750\<rparr>))\<lparr>now' := 2000\<rparr>)"

section \<open>Properties of word counting\<close>

lemma runs_from_all_space: "\<forall>c \<in> set v. isWhiteSpace c \<Longrightarrow> runs_from b v = 0"
  by (induction v arbitrary: b) auto

lemma runs_from_append_space:
  "\<forall>c \<in> set v. isWhiteSpace c \<Longrightarrow> runs_from b (u @ v) = runs_from b u"
  by (induction u arbitrary: b) (auto simp: runs_from_all_space)

lemma runs_from_dropWhile: "runs_from False (dropWhile isWhiteSpace s) = runs_from False s"
  by (induction s) auto

lemma strip_right_decomp:
  "u = rev (dropWhile isWhiteSpace (rev u)) @ rev (takeWhile isWhiteSpace (rev u))"
  by (metis rev_append rev_rev_ident takeWhile_dropWhile_id)

lemma runs_from_strip_right:
  "runs_from b (rev (dropWhile isWhiteSpace (rev u))) = runs_from b u"
proof -
  have "\<forall>c \<in> set (rev (takeWhile isWhiteSpace (rev u))). isWhiteSpace c"
    by (auto dest: set_takeWhileD)
  from runs_from_append_space [OF this, of b "rev (dropWhile isWhiteSpace (rev u))"]
  show ?thesis using strip_right_decomp [of u] by simp
qed

lemma nonspace_runs_trim: "nonspace_runs (trim s) = nonspace_runs s"
  by (simp add: nonspace_runs_def trim_def runs_from_strip_right runs_from_dropWhile)

lemma trim_cases:
  "trim s = [] \<or> (\<not> isWhiteSpace (hd (trim s)) \<and> \<not> isWhiteSpace (last (trim s)))"
proof (cases "trim s = []")
  case True then show ?thesis by simp
next
  case False
  let ?d = "dropWhile isWhiteSpace s"
  let ?r = "dropWhile isWhiteSpace (rev ?d)"
  from False have r: "?r \<noteq> []" by (simp add: trim_def)
  then have hdr: "\<not> isWhiteSpace (hd ?r)" by (rule hd_dropWhile)
  have last_trim: "last (trim s) = hd ?r" using r by (simp add: trim_def last_rev)
  have d: "?d \<noteq> []"
  proof
    assume "?d = []"
    with r show False by simp
  qed
  then have hdd: "\<not> isWhiteSpace (hd ?d)" by (rule hd_dropWhile)
  have "rev ?d = takeWhile isWhiteSpace (rev ?d) @ ?r" by simp
  then have "?d = rev ?r @ rev (takeWhile isWhiteSpace (rev ?d))"
    by (metis rev_append rev_rev_ident)
  then have "hd ?d = hd (rev ?r)" using r by (metis hd_append2 rev_is_Nil_conv)
  then have "\<not> isWhiteSpace (hd (trim s))" using hdd by (simp add: trim_def)
  with hdr last_trim show ?thesis by simp
qed

lemma length_split_ws:
  "s = [] \<or> \<not> isWhiteSpace (last s) \<Longrightarrow> length (split_ws cur s) = Suc (runs_from True s)"
proof (induction cur s rule: split_ws.induct)
  case (1 cur)
  then show ?case by simp
next
  case (2 cur c cs)
  show ?case
  proof (cases "isWhiteSpace c")
    case True
    let ?d = "dropWhile isWhiteSpace cs"
    from True "2.prems" have cs: "cs \<noteq> []" "\<not> isWhiteSpace (last cs)" by (auto split: if_splits)
    then have "?d \<noteq> []" by (metis dropWhile_eq_Nil_conv last_in_set)
    then obtain d ds where d: "?d = d # ds" by (cases ?d) auto
    then have nd: "\<not> isWhiteSpace d" by (metis hd_dropWhile list.sel(1) list.distinct(1))
    have "last ?d = last cs" using \<open>?d \<noteq> []\<close>
      by (metis last_appendR takeWhile_dropWhile_id)
    with cs have "?d = [] \<or> \<not> isWhiteSpace (last ?d)" by simp
    from "2.IH"(1) [OF True this] have "length (split_ws [] ?d) = Suc (runs_from True ?d)" .
    moreover have "runs_from True ?d = runs_from True ds" using d nd by simp
    moreover have "runs_from False cs = Suc (runs_from True ds)"
      using runs_from_dropWhile [of cs] d nd by simp
    ultimately show ?thesis using True by simp
  next
    case False
    with "2.prems" have "cs = [] \<or> \<not> isWhiteSpace (last cs)" by (auto split: if_splits)
    from "2.IH"(2) [OF False this] show ?thesis using False by simp
  qed
qed

lemma countWords_runs: "countWords s = nonspace_runs s"
proof (cases "trim s = []")
  case True
  then have "nonspace_runs (trim s) = 0" by (simp add: nonspace_runs_def)
  with nonspace_runs_trim [of s] have "nonspace_runs s = 0" by simp
  then show ?thesis using True by (simp add: countWords_def)
next
  case False
  with trim_cases [of s] have nw: "\<not> isWhiteSpace (hd (trim s))" "\<not> isWhiteSpace (last (trim s))"
    by auto
  from False obtain d ds where t: "trim s = d # ds" by (cases "trim s") auto
  have "length (split_ws [] (trim s)) = Suc (runs_from True (trim s))"
    using nw by (intro length_split_ws) simp
  also have "\<dots> = runs_from False (trim s)" using t nw by simp
  also have "\<dots> = nonspace_runs s" using nonspace_runs_trim [of s] by (simp add: nonspace_runs_def)
  finally show ?thesis using False by (simp add: countWords_def)
qed

lemma countWords_trim: "countWords (trim s) = countWords s"
  by (simp add: countWords_runs nonspace_runs_trim)

lemma countWords_blank: "(\<forall>c \<in> set s. isWhiteSpace c) \<Longrightarrow> countWords s = 0"
  by (simp add: countWords_runs nonspace_runs_def runs_from_all_space)


section \<open>The functions as updates of the world\<close>

lemma clear_grace:
  "(case graceTimerId w of Some i \<Rightarrow> (clearTimeout i w)\<lparr>graceTimerId := None\<rparr> | None \<Rightarrow> w)
   = w\<lparr>timers := filter (\<lambda>t. Some (tid t) \<noteq> graceTimerId w) (timers w), graceTimerId := None\<rparr>"
  by (cases w) (simp add: clearTimeout_def split: option.splits)

lemma clear_countdown:
  "(case countdownTimerId w of Some i \<Rightarrow> (clearInterval i w)\<lparr>countdownTimerId := None\<rparr> | None \<Rightarrow> w)
   = w\<lparr>timers := filter (\<lambda>t. Some (tid t) \<noteq> countdownTimerId w) (timers w), countdownTimerId := None\<rparr>"
  by (cases w) (simp add: clearInterval_def split: option.splits)

lemma clear_elapsed:
  "(case elapsedTimerId w of Some i \<Rightarrow> (clearInterval i w)\<lparr>elapsedTimerId := None\<rparr> | None \<Rightarrow> w)
   = w\<lparr>timers := filter (\<lambda>t. Some (tid t) \<noteq> elapsedTimerId w) (timers w), elapsedTimerId := None\<rparr>"
  by (cases w) (simp add: clearInterval_def split: option.splits)

lemma clearAllTimers_eq:
  "clearAllTimers w =
     w\<lparr>timers := filter (\<lambda>t. Some (tid t) \<noteq> graceTimerId w \<and> Some (tid t) \<noteq> countdownTimerId w
                            \<and> Some (tid t) \<noteq> elapsedTimerId w) (timers w),
       graceTimerId := None, countdownTimerId := None, elapsedTimerId := None\<rparr>"
  by (simp add: clearAllTimers_def clear_grace clear_countdown clear_elapsed Let_def conj_commute conj_left_commute cong: conj_cong)


lemma stopCountdown_eq:
  "stopCountdown w =
     w\<lparr>timers := filter (\<lambda>t. Some (tid t) \<noteq> graceTimerId w \<and> Some (tid t) \<noteq> countdownTimerId w)
                  (timers w),
       graceTimerId := None, countdownTimerId := None,
       countdownActive := False, countdownStart := None, heartbeatCount := 0,
       textArea_filter := None, progressBar_width := 100,
       progressContainer_active := False, editorWrapper_countdown := False,
       editorWrapper_heartbeat := False, pauseTimer_text := timeoutSeconds w\<rparr>"
  by (simp add: stopCountdown_def clear_grace clear_countdown Let_def conj_commute cong: conj_cong)

lemma resetSession_eq:
  "resetSession w =
     w\<lparr>timers := filter (\<lambda>t. Some (tid t) \<noteq> graceTimerId w \<and> Some (tid t) \<noteq> countdownTimerId w
                            \<and> Some (tid t) \<noteq> elapsedTimerId w) (timers w),
       graceTimerId := None, countdownTimerId := None, elapsedTimerId := None,
       countdownActive := False, countdownStart := None, heartbeatCount := 0,
       isActive := False, startTime := None,
       textArea_value := [], textArea_filter := None, textArea_disabled := True,
       startButton_shown := True, wordCount_text := 0, elapsedTime_text := 0,
       pauseTimer_text := timeoutSeconds w, progressBar_width := 100,
       progressContainer_active := False, editorWrapper_countdown := False,
       editorWrapper_heartbeat := False, saveButton_disabled := True,
       resetButton_disabled := True\<rparr>"
  by (simp add: resetSession_def clearAllTimers_eq stopCountdown_eq Let_def)


lemma setTimeout_eq:
  "setTimeout f d w =
     (nextTimerId w,
      w\<lparr>timers := timers w @ [\<lparr>tid = nextTimerId w, due = now w + d, period = None, callback = f\<rparr>],
        nextTimerId := Suc (nextTimerId w)\<rparr>)"
  by (simp add: setTimeout_def)

lemma saveToHistory_frame:
  "timers (saveToHistory t n w) = timers w"
  "graceTimerId (saveToHistory t n w) = graceTimerId w"
  "countdownTimerId (saveToHistory t n w) = countdownTimerId w"
  "elapsedTimerId (saveToHistory t n w) = elapsedTimerId w"
  "timeoutSeconds (saveToHistory t n w) = timeoutSeconds w"
  "nextTimerId (saveToHistory t n w) = nextTimerId w"
  "now (saveToHistory t n w) = now w"
  by (simp_all add: saveToHistory_def)

lemma handleTextDeletion_log:
  "log (handleTextDeletion w) =
     log w @ TextDestroyed (trim (textArea_value w)) (countWords (textArea_value w))
           # (if 3 \<le> countWords (textArea_value w)
              then [Archived (trim (textArea_value w)) (countWords (textArea_value w))] else [])"
proof -
  have "countWords (textArea_value w) = 0" if "trim (textArea_value w) = []"
    using that by (simp add: countWords_def)
  then show ?thesis
    by (auto simp: handleTextDeletion_def Let_def setTimeout_eq clearAllTimers_eq
        saveToHistory_def countWords_trim)
qed

lemma handleTextDeletion_history:
  "history (handleTextDeletion w) =
     (if 3 \<le> countWords (textArea_value w)
      then take MAX_HISTORY
             (\<lparr>entry_id = now w, entry_text = trim (textArea_value w),
               entry_wordCount = countWords (textArea_value w), entry_savedAt = now w\<rparr>
              # history w)
      else history w)"
proof -
  have "countWords (textArea_value w) = 0" if "trim (textArea_value w) = []"
    using that by (simp add: countWords_def)
  then show ?thesis
    by (auto simp: handleTextDeletion_def Let_def setTimeout_eq clearAllTimers_eq
        saveToHistory_def countWords_trim)
qed

lemma handleTextDeletion_session:
  "textArea_value (handleTextDeletion w) = []"
  "\<not> isActive (handleTextDeletion w)"
  "\<not> countdownActive (handleTextDeletion w)"
  "textArea_disabled (handleTextDeletion w)"
  "timeoutSeconds (handleTextDeletion w) = timeoutSeconds w"
  by (simp_all add: handleTextDeletion_def Let_def setTimeout_eq clearAllTimers_eq
      saveToHistory_frame)

lemma startCountdown_eq:
  "startCountdown w =
     w\<lparr>timers := filter (\<lambda>t. Some (tid t) \<noteq> graceTimerId w) (timers w)
                  @ [\<lparr>tid = nextTimerId w, due = now w + 1000, period = None,
                      callback = GraceElapsed\<rparr>],
       nextTimerId := Suc (nextTimerId w),
       graceTimerId := Some (nextTimerId w)\<rparr>"
  by (simp add: startCountdown_def clear_grace setTimeout_def Let_def)

lemma startElapsedTimer_eq:
  "startElapsedTimer w =
     w\<lparr>timers := timers w @ [\<lparr>tid = nextTimerId w, due = now w + 1000, period = Some 1000,
                                callback = ElapsedTick\<rparr>],
       nextTimerId := Suc (nextTimerId w),
       elapsedTimerId := Some (nextTimerId w)\<rparr>"
  by (simp add: startElapsedTimer_def setInterval_def Let_def)

lemma beginActiveCountdown_eq:
  "beginActiveCountdown w =
     w\<lparr>countdownActive := True, countdownStart := Some (now w), heartbeatCount := 0,
       lastBeatTime := now w, progressContainer_active := True,
       editorWrapper_countdown := True, editorWrapper_heartbeat := True,
       timers := timers w @ [\<lparr>tid = nextTimerId w, due = now w + 100, period = Some 100,
                                callback = CountdownSample\<rparr>],
       nextTimerId := Suc (nextTimerId w),
       countdownTimerId := Some (nextTimerId w)\<rparr>"
  by (simp add: beginActiveCountdown_def setInterval_def triggerHeartbeat_def Let_def
      COUNTDOWN_INTERVAL_def)

lemma handleInput_eq:
  "handleInput w =
     w\<lparr>timers := filter (\<lambda>t. Some (tid t) \<noteq> graceTimerId w \<and> Some (tid t) \<noteq> countdownTimerId w)
                  (timers w)
                  @ [\<lparr>tid = nextTimerId w, due = now w + 1000, period = None,
                      callback = GraceElapsed\<rparr>],
       nextTimerId := Suc (nextTimerId w),
       graceTimerId := Some (nextTimerId w), countdownTimerId := None,
       countdownActive := False, countdownStart := None, heartbeatCount := 0,
       textArea_filter := None, progressBar_width := 100,
       progressContainer_active := False, editorWrapper_countdown := False,
       editorWrapper_heartbeat := False, pauseTimer_text := timeoutSeconds w,
       wordCount_text := countWords (textArea_value w)\<rparr>"
  by (simp add: handleInput_def stopCountdown_eq startCountdown_eq Let_def)

lemma startSession_eq:
  "startSession x w =
     w\<lparr>isActive := True, startTime := Some (now w), textArea_disabled := False,
       textArea_value := (case x of Some t \<Rightarrow> t | None \<Rightarrow> []),
       wordCount_text := (case x of Some t \<Rightarrow> countWords t | None \<Rightarrow> wordCount_text w),
       startButton_shown := False, saveButton_disabled := False,
       resetButton_disabled := False, log := log w @ [SessionStarted],
       timers := filter (\<lambda>t. Some (tid t) \<noteq> graceTimerId w)
                   (timers w @ [\<lparr>tid = nextTimerId w, due = now w + 1000, period = Some 1000,
                                 callback = ElapsedTick\<rparr>])
                  @ [\<lparr>tid = Suc (nextTimerId w), due = now w + 1000, period = None,
                      callback = GraceElapsed\<rparr>],
       nextTimerId := Suc (Suc (nextTimerId w)),
       elapsedTimerId := Some (nextTimerId w),
       graceTimerId := Some (Suc (nextTimerId w))\<rparr>"
  by (simp add: startSession_def startElapsedTimer_eq startCountdown_eq Let_def)

lemma handleTextDeletion_eq:
  "handleTextDeletion w =
     w\<lparr>log := log (handleTextDeletion w), history := history (handleTextDeletion w),
       timers := filter (\<lambda>t. Some (tid t) \<noteq> graceTimerId w \<and> Some (tid t) \<noteq> countdownTimerId w
                            \<and> Some (tid t) \<noteq> elapsedTimerId w) (timers w)
                  @ [\<lparr>tid = nextTimerId w, due = now w + 500, period = None,
                      callback = DeletedFlashEnd\<rparr>],
       nextTimerId := Suc (nextTimerId w),
       graceTimerId := None, countdownTimerId := None, elapsedTimerId := None,
       isActive := False, countdownActive := False, startTime := None,
       textArea_value := [], textArea_filter := None, textArea_disabled := True,
       startButton_shown := True, wordCount_text := 0, elapsedTime_text := 0,
       pauseTimer_text := timeoutSeconds w, progressBar_width := 100,
       progressContainer_active := False, editorWrapper_countdown := False,
       editorWrapper_heartbeat := False, saveButton_disabled := True,
       resetButton_disabled := True, textArea_deleted := True\<rparr>"
  by (simp add: handleTextDeletion_def Let_def setTimeout_eq clearAllTimers_eq saveToHistory_def)


lemma clearAllTimers'_eq:
  "clearAllTimers' w =
     w\<lparr>timers' := filter (\<lambda>t. Some (tid t) \<noteq> pauseTimerId w \<and> Some (tid t) \<noteq> blurTimerId w
                            \<and> Some (tid t) \<noteq> elapsedTimerId' w) (timers' w),
       pauseTimerId := None, blurTimerId := None, elapsedTimerId' := None\<rparr>"
proof -
  have a: "(case pauseTimerId w of Some i \<Rightarrow> (clearTimer' i w)\<lparr>pauseTimerId := None\<rparr> | None \<Rightarrow> w)
     = w\<lparr>timers' := filter (\<lambda>t. Some (tid t) \<noteq> pauseTimerId w) (timers' w), pauseTimerId := None\<rparr>"
    for w by (cases w) (simp add: clearTimer'_def split: option.splits)
  have b: "(case blurTimerId w of Some i \<Rightarrow> (clearTimer' i w)\<lparr>blurTimerId := None\<rparr> | None \<Rightarrow> w)
     = w\<lparr>timers' := filter (\<lambda>t. Some (tid t) \<noteq> blurTimerId w) (timers' w), blurTimerId := None\<rparr>"
    for w by (cases w) (simp add: clearTimer'_def split: option.splits)
  have c: "(case elapsedTimerId' w of Some i \<Rightarrow> (clearTimer' i w)\<lparr>elapsedTimerId' := None\<rparr> | None \<Rightarrow> w)
     = w\<lparr>timers' := filter (\<lambda>t. Some (tid t) \<noteq> elapsedTimerId' w) (timers' w), elapsedTimerId' := None\<rparr>"
    for w by (cases w) (simp add: clearTimer'_def split: option.splits)
  show ?thesis
    by (simp add: clearAllTimers'_def a b c Let_def conj_commute conj_left_commute cong: conj_cong)
qed



lemma fire_cases:
  assumes "fire i w = Some w'"
  obtains tm where "find (\<lambda>t. tid t = i) (timers w) = Some tm" "due tm \<le> now w"
    "w' = runCallback (callback tm)
            (w\<lparr>timers := (case period tm of
                             None \<Rightarrow> filter (\<lambda>u. tid u \<noteq> i) (timers w)
                           | Some p \<Rightarrow> map (\<lambda>u. if tid u = i then u\<lparr>due := now w + p\<rparr> else u)
                                         (timers w))\<rparr>)"
  using assms by (auto simp: fire_def split: option.splits if_splits)

lemma countdownSample_timeout: "timeoutSeconds (countdownSample w) = timeoutSeconds w"
  by (simp add: countdownSample_def Let_def triggerHeartbeat_def handleTextDeletion_session)

lemma runCallback_timeout: "timeoutSeconds (runCallback f w) = timeoutSeconds w"
  by (cases f)
     (simp_all add: runCallback_def graceElapsed_def beginActiveCountdown_eq
       countdownSample_timeout elapsedTick_def split: option.splits)

lemma fire_timeout: "fire i w = Some w' \<Longrightarrow> timeoutSeconds w' = timeoutSeconds w"
  by (erule fire_cases) (simp add: runCallback_timeout)

lemma handle_timeout:
  assumes "handle ev w = Some w'" and "\<And>v. ev \<noteq> ChangeTimeout v"
  shows "timeoutSeconds w' = timeoutSeconds w"
proof (cases ev)
  case (TimerFires i)
  with assms show ?thesis by (simp add: handle_def fire_timeout)
next
  case (ChangeTimeout v)
  with assms(2) [of v] show ?thesis by simp
qed (use assms in \<open>auto simp: handle_def startSession_eq handleInput_eq resetSession_eq
      saveDraft_def saveToHistory_def setTimeout_eq loadDraft_def continueFromHistory_def
      deleteFromHistory_def clearHistory_def handleDarkModeToggle_def saveSettings_def Let_def
      split: if_splits option.splits\<close>)

lemma countdownSample_log:
  "log (countdownSample w) =
     log w @ DecayTick (progress w) (remaining w) (heartbeatCount w < \<lfloor>elapsed w\<rfloor>)
           # (if remaining w \<le> 0 then deletion_obs w else [])"
  by (simp add: countdownSample_def Let_def triggerHeartbeat_def handleTextDeletion_log
      deletion_obs_def)

lemma handleTimeoutChange_eq:
  "handleTimeoutChange v w =
     (case parseInt v of
        Some n \<Rightarrow>
          if 1 \<le> n \<and> n \<le> 30
          then w\<lparr>timeoutSeconds := of_int n, pauseTimer_text := of_int n,
                 timeoutDisplay_text := of_int n,
                 stored_settings := Some \<lparr>settings_timeout = Some (of_int n),
                                           settings_lightMode = lightMode w\<rparr>\<rparr>
          else w
      | None \<Rightarrow> w)"
  by (simp add: handleTimeoutChange_def saveSettings_def split: option.splits)

lemma handleTimeoutChange_range:
  "timeoutSeconds (handleTimeoutChange v w) =
     (case parseInt v of
        Some n \<Rightarrow> if 1 \<le> n \<and> n \<le> 30 then of_int n else timeoutSeconds w
      | None \<Rightarrow> timeoutSeconds w)"
  by (simp add: handleTimeoutChange_eq split: option.splits)

lemma handleTimeoutChange_rejects:
  "(case parseInt v of Some n \<Rightarrow> n < 1 \<or> 30 < n | None \<Rightarrow> True) \<Longrightarrow> handleTimeoutChange v w = w"
  by (auto simp: handleTimeoutChange_eq split: option.splits)

lemma loadSettings_timeout:
  "timeoutSeconds (loadSettings w) =
     (case stored_settings w of
        None \<Rightarrow> timeoutSeconds w
      | Some s \<Rightarrow> (case settings_timeout s of
                    Some x \<Rightarrow> if x \<noteq> 0 then x else DEFAULT_TIMEOUT
                  | None \<Rightarrow> DEFAULT_TIMEOUT))"
  by (simp add: loadSettings_def Let_def split: option.splits)

section \<open>The tracking invariant\<close>

lemma find_tid:
  "find (\<lambda>t. tid t = i) ts = Some tm \<Longrightarrow> tm \<in> set ts \<and> tid tm = i"
  by (auto simp: find_Some_iff)

lemma tracked_cong:
  "timers w' = timers w \<Longrightarrow> nextTimerId w' = nextTimerId w \<Longrightarrow>
   graceTimerId w' = graceTimerId w \<Longrightarrow> countdownTimerId w' = countdownTimerId w \<Longrightarrow>
   elapsedTimerId w' = elapsedTimerId w \<Longrightarrow> tracked w' = tracked w"
  by (simp add: tracked_def)

lemma tracked_filter:
  "tracked w \<Longrightarrow> tracked (w\<lparr>timers := filter P (timers w)\<rparr>)"
  by (auto simp: tracked_def distinct_map_filter)

lemma map_tid_reschedule:
  "map (tid \<circ> (\<lambda>u. if tid u = i then u\<lparr>due := d\<rparr> else u)) ts = map tid ts"
  by (induction ts) auto

lemma tracked_reschedule:
  "tracked w \<Longrightarrow>
   tracked (w\<lparr>timers := map (\<lambda>u. if tid u = i then u\<lparr>due := d\<rparr> else u) (timers w)\<rparr>)"
  by (auto simp: tracked_def map_tid_reschedule)



lemma tracked_handleTextDeletion: "tracked w \<Longrightarrow> tracked (handleTextDeletion w)"
  by (subst handleTextDeletion_eq)
     (auto simp: tracked_def distinct_map_filter interval_of_def less_Suc_eq)




lemma countdownSample_alt:
  "countdownSample w = (if remaining w \<le> 0 then handleTextDeletion (sampled w) else sampled w)"
proof (cases "heartbeatCount w < \<lfloor>elapsed w\<rfloor>")
  case True
  then show ?thesis
    by (simp add: countdownSample_def sampled_def Let_def triggerHeartbeat_def)
next
  case False
  have "w\<lparr>editorWrapper_heartbeat := editorWrapper_heartbeat w\<rparr> = w" by simp
  with False show ?thesis
    by (simp add: countdownSample_def sampled_def Let_def triggerHeartbeat_def)
qed

lemma sampled_frame:
  "timers (sampled w) = timers w" "nextTimerId (sampled w) = nextTimerId w"
  "graceTimerId (sampled w) = graceTimerId w" "countdownTimerId (sampled w) = countdownTimerId w"
  "elapsedTimerId (sampled w) = elapsedTimerId w" "countdownStart (sampled w) = countdownStart w"
  "timeoutSeconds (sampled w) = timeoutSeconds w" "now (sampled w) = now w"
  "isActive (sampled w) = isActive w" "textArea_disabled (sampled w) = textArea_disabled w"
  "textArea_value (sampled w) = textArea_value w" "countdownActive (sampled w) = countdownActive w"
  "log (sampled w) = log w @ [DecayTick (progress w) (remaining w) (heartbeatCount w < \<lfloor>elapsed w\<rfloor>)]"
  by (simp_all add: sampled_def)

lemma tracked_sampled: "tracked (sampled w) = tracked w"
  by (rule tracked_cong) (simp_all add: sampled_frame)

lemma tracked_countdownSample: "tracked w \<Longrightarrow> tracked (countdownSample w)"
  by (simp add: countdownSample_alt tracked_sampled tracked_handleTextDeletion)

lemma fire_tracked:
  assumes "tracked w" and "fire i w = Some w'"
  shows "\<exists>tm \<in> set (timers w). tid tm = i \<and> due tm \<le> now w \<and>
     w' = (case callback tm of
             GraceElapsed \<Rightarrow>
               beginActiveCountdown
                 (w\<lparr>timers := filter (\<lambda>u. tid u \<noteq> i) (timers w), graceTimerId := None\<rparr>)
           | CountdownSample \<Rightarrow>
               countdownSample
                 (w\<lparr>timers := map (\<lambda>u. if tid u = i then u\<lparr>due := now w + 100\<rparr> else u)
                                  (timers w)\<rparr>)
           | ElapsedTick \<Rightarrow>
               elapsedTick
                 (w\<lparr>timers := map (\<lambda>u. if tid u = i then u\<lparr>due := now w + 1000\<rparr> else u)
                                  (timers w)\<rparr>)
           | DeletedFlashEnd \<Rightarrow>
               w\<lparr>timers := filter (\<lambda>u. tid u \<noteq> i) (timers w), textArea_deleted := False\<rparr>
           | SaveLabelRestore \<Rightarrow> w\<lparr>timers := filter (\<lambda>u. tid u \<noteq> i) (timers w)\<rparr>)"
proof -
  from assms(2) obtain tm where f: "find (\<lambda>t. tid t = i) (timers w) = Some tm"
    and d: "due tm \<le> now w"
    and w': "w' = runCallback (callback tm)
            (w\<lparr>timers := (case period tm of
                             None \<Rightarrow> filter (\<lambda>u. tid u \<noteq> i) (timers w)
                           | Some p \<Rightarrow> map (\<lambda>u. if tid u = i then u\<lparr>due := now w + p\<rparr> else u)
                                         (timers w))\<rparr>)"
    by (rule fire_cases)
  from f have m: "tm \<in> set (timers w)" "tid tm = i" using find_tid by blast+
  with assms(1) have p: "period tm = interval_of (callback tm)" by (simp add: tracked_def)
  have "w' = (case callback tm of
             GraceElapsed \<Rightarrow>
               beginActiveCountdown
                 (w\<lparr>timers := filter (\<lambda>u. tid u \<noteq> i) (timers w), graceTimerId := None\<rparr>)
           | CountdownSample \<Rightarrow>
               countdownSample
                 (w\<lparr>timers := map (\<lambda>u. if tid u = i then u\<lparr>due := now w + 100\<rparr> else u)
                                  (timers w)\<rparr>)
           | ElapsedTick \<Rightarrow>
               elapsedTick
                 (w\<lparr>timers := map (\<lambda>u. if tid u = i then u\<lparr>due := now w + 1000\<rparr> else u)
                                  (timers w)\<rparr>)
           | DeletedFlashEnd \<Rightarrow>
               w\<lparr>timers := filter (\<lambda>u. tid u \<noteq> i) (timers w), textArea_deleted := False\<rparr>
           | SaveLabelRestore \<Rightarrow> w\<lparr>timers := filter (\<lambda>u. tid u \<noteq> i) (timers w)\<rparr>)"
    unfolding w' p
    by (cases "callback tm")
       (simp_all add: runCallback_def interval_of_def COUNTDOWN_INTERVAL_def graceElapsed_def)
  with m d show ?thesis by blast
qed


section \<open>Callbacks in each phase\<close>

lemma destroyed_append [simp]: "destroyed (l @ m) = destroyed l + destroyed m"
  by (simp add: destroyed_def)

lemma ticks_append [simp]: "ticks (l @ m) = ticks l + ticks m"
  by (simp add: ticks_def)

lemma destroyed_simps [simp]:
  "destroyed [] = 0" "destroyed (SessionStarted # l) = destroyed l"
  "destroyed (DecayTick p r b # l) = destroyed l"
  "destroyed (TextDestroyed t n # l) = Suc (destroyed l)"
  "destroyed (Archived t n # l) = destroyed l"
  by (simp_all add: destroyed_def)

lemma ticks_simps [simp]:
  "ticks [] = 0" "ticks (SessionStarted # l) = ticks l"
  "ticks (DecayTick p r b # l) = Suc (ticks l)"
  "ticks (TextDestroyed t n # l) = ticks l"
  "ticks (Archived t n # l) = ticks l"
  by (simp_all add: ticks_def)

lemma deletion_obs_counts [simp]: "destroyed (deletion_obs w) = 1" "ticks (deletion_obs w) = 0"
  by (simp_all add: deletion_obs_def)

lemma handleTextDeletion_log': "log (handleTextDeletion w) = log w @ deletion_obs w"
  by (simp add: handleTextDeletion_log deletion_obs_def)

lemma handleTextDeletion_handles:
  "graceTimerId (handleTextDeletion w) = None"
  "countdownTimerId (handleTextDeletion w) = None"
  "elapsedTimerId (handleTextDeletion w) = None"
  by (simp_all add: handleTextDeletion_def Let_def setTimeout_eq clearAllTimers_eq)

lemma halted_handleTextDeletion: "tracked w \<Longrightarrow> halted (handleTextDeletion w)"
  using tracked_handleTextDeletion [of w]
  by (simp add: halted_def handleTextDeletion_handles handleTextDeletion_session)

lemma elapsedTick_frame:
  "timers (elapsedTick w) = timers w" "nextTimerId (elapsedTick w) = nextTimerId w"
  "graceTimerId (elapsedTick w) = graceTimerId w"
  "countdownTimerId (elapsedTick w) = countdownTimerId w"
  "elapsedTimerId (elapsedTick w) = elapsedTimerId w"
  "countdownStart (elapsedTick w) = countdownStart w"
  "timeoutSeconds (elapsedTick w) = timeoutSeconds w" "log (elapsedTick w) = log w"
  "textArea_disabled (elapsedTick w) = textArea_disabled w"
  "no_effect (elapsedTick w) = no_effect w"
  by (simp_all add: elapsedTick_def no_effect_def split: option.splits)

lemma tracked_elapsedTick: "tracked (elapsedTick w) = tracked w"
  by (rule tracked_cong) (simp_all add: elapsedTick_frame)

lemma tid_unique:
  "tracked w \<Longrightarrow> a \<in> set (timers w) \<Longrightarrow> b \<in> set (timers w) \<Longrightarrow> tid a = tid b \<Longrightarrow> a = b"
  by (auto simp: tracked_def distinct_map dest: inj_onD)

lemma tracked_grace: "tracked w \<Longrightarrow> tm \<in> set (timers w) \<Longrightarrow> callback tm = GraceElapsed \<Longrightarrow> graceTimerId w = Some (tid tm)"
  by (simp add: tracked_def)

lemma tracked_sample: "tracked w \<Longrightarrow> tm \<in> set (timers w) \<Longrightarrow> callback tm = CountdownSample \<Longrightarrow> countdownTimerId w = Some (tid tm)"
  by (simp add: tracked_def)

text \<open>A callback in a countdown that began at \<open>s\<close>.\<close>

lemma decaying_fire:
  assumes "decaying s w" and "fire i w = Some w'"
  shows "\<exists>tm \<in> set (timers w). tid tm = i \<and> due tm \<le> now w \<and>
     (callback tm = CountdownSample \<and> 1000 * timeoutSeconds w \<le> real_of_int (now w - s)
        \<longrightarrow> halted w' \<and> destroyed (log w') = Suc (destroyed (log w))) \<and>
     (\<not> (callback tm = CountdownSample \<and> 1000 * timeoutSeconds w \<le> real_of_int (now w - s))
        \<longrightarrow> decaying s w' \<and> destroyed (log w') = destroyed (log w)
           \<and> timeoutSeconds w' = timeoutSeconds w
           \<and> (callback tm = CountdownSample \<longrightarrow> tm\<lparr>due := now w + 100\<rparr> \<in> set (timers w'))
           \<and> (callback tm \<noteq> CountdownSample \<longrightarrow>
                (\<forall>u \<in> set (timers w). callback u = CountdownSample \<longrightarrow> u \<in> set (timers w'))))"
proof -
  from assms(1) have tr: "tracked w" and g: "graceTimerId w = None"
    and cs: "countdownStart w = Some s" by (simp_all add: decaying_def)
  from fire_tracked [OF tr assms(2)] obtain tm where tm: "tm \<in> set (timers w)" "tid tm = i"
    and d: "due tm \<le> now w"
    and w': "w' = (case callback tm of
             GraceElapsed \<Rightarrow>
               beginActiveCountdown
                 (w\<lparr>timers := filter (\<lambda>u. tid u \<noteq> i) (timers w), graceTimerId := None\<rparr>)
           | CountdownSample \<Rightarrow>
               countdownSample
                 (w\<lparr>timers := map (\<lambda>u. if tid u = i then u\<lparr>due := now w + 100\<rparr> else u)
                                  (timers w)\<rparr>)
           | ElapsedTick \<Rightarrow>
               elapsedTick
                 (w\<lparr>timers := map (\<lambda>u. if tid u = i then u\<lparr>due := now w + 1000\<rparr> else u)
                                  (timers w)\<rparr>)
           | DeletedFlashEnd \<Rightarrow>
               w\<lparr>timers := filter (\<lambda>u. tid u \<noteq> i) (timers w), textArea_deleted := False\<rparr>
           | SaveLabelRestore \<Rightarrow> w\<lparr>timers := filter (\<lambda>u. tid u \<noteq> i) (timers w)\<rparr>)"
    by blast
  have others: "u \<in> set (map (\<lambda>u. if tid u = i then u\<lparr>due := x\<rparr> else u) (timers w))
                \<and> u \<in> set (filter (\<lambda>u. tid u \<noteq> i) (timers w))"
    if "u \<in> set (timers w)" "callback u \<noteq> callback tm" for u x
  proof -
    from that tid_unique [OF tr that(1) tm(1)] tm(2) have "tid u \<noteq> i" by auto
    with that(1) show ?thesis by force
  qed
  have "(callback tm = CountdownSample \<and> 1000 * timeoutSeconds w \<le> real_of_int (now w - s)
        \<longrightarrow> halted w' \<and> destroyed (log w') = Suc (destroyed (log w))) \<and>
     (\<not> (callback tm = CountdownSample \<and> 1000 * timeoutSeconds w \<le> real_of_int (now w - s))
        \<longrightarrow> decaying s w' \<and> destroyed (log w') = destroyed (log w)
           \<and> timeoutSeconds w' = timeoutSeconds w
           \<and> (callback tm = CountdownSample \<longrightarrow> tm\<lparr>due := now w + 100\<rparr> \<in> set (timers w'))
           \<and> (callback tm \<noteq> CountdownSample \<longrightarrow>
                (\<forall>u \<in> set (timers w). callback u = CountdownSample \<longrightarrow> u \<in> set (timers w'))))"
  proof (cases "callback tm")
    case GraceElapsed
    with tracked_grace [OF tr tm(1)] g show ?thesis by simp
  next
    case CountdownSample
    let ?w1 = "w\<lparr>timers := map (\<lambda>u. if tid u = i then u\<lparr>due := now w + 100\<rparr> else u) (timers w)\<rparr>"
    have tr1: "tracked ?w1" using tr by (rule tracked_reschedule)
    have rem: "remaining ?w1 = max 0 (timeoutSeconds w - real_of_int (now w - s) / 1000)"
      by (simp add: remaining_def elapsed_def cs toNumber_def)
    from CountdownSample w' have w'': "w' = countdownSample ?w1" by simp
    show ?thesis
    proof (cases "remaining ?w1 \<le> 0")
      case True
      then have "1000 * timeoutSeconds w \<le> real_of_int (now w - s)" unfolding rem by simp
      moreover have "halted w'" unfolding w'' using True tr1
        by (simp add: countdownSample_alt halted_handleTextDeletion tracked_sampled)
      moreover have "destroyed (log w') = Suc (destroyed (log w))" unfolding w'' using True
        by (simp add: countdownSample_alt handleTextDeletion_log' sampled_frame)
      ultimately show ?thesis using CountdownSample by simp
    next
      case False
      then have "real_of_int (now w - s) < 1000 * timeoutSeconds w" unfolding rem by simp
      moreover have "tracked (sampled ?w1)" using tr1 by (simp add: tracked_sampled)
      then have "decaying s w'" unfolding w'' using False g cs
        by (simp add: countdownSample_alt decaying_def sampled_frame)
      moreover have "destroyed (log w') = destroyed (log w)" "timeoutSeconds w' = timeoutSeconds w"
        unfolding w'' using False by (simp_all add: countdownSample_alt sampled_frame)
      moreover have "timers w' = timers ?w1"
        unfolding w'' using False by (simp add: countdownSample_alt sampled_frame)
      then have "tm\<lparr>due := now w + 100\<rparr> \<in> set (timers w')" using tm by force
      ultimately show ?thesis using CountdownSample by simp
    qed
  next
    case ElapsedTick
    let ?w1 = "w\<lparr>timers := map (\<lambda>u. if tid u = i then u\<lparr>due := now w + 1000\<rparr> else u) (timers w)\<rparr>"
    have tr1: "tracked ?w1" using tr by (rule tracked_reschedule)
    from ElapsedTick w' have w'': "w' = elapsedTick ?w1" by simp
    have "decaying s w'" unfolding w'' using tr1 g cs
      by (simp add: decaying_def tracked_elapsedTick elapsedTick_frame)
    moreover have "destroyed (log w') = destroyed (log w)" "timeoutSeconds w' = timeoutSeconds w"
      unfolding w'' by (simp_all add: elapsedTick_frame)
    moreover have "timers w' = timers ?w1" unfolding w'' by (simp add: elapsedTick_frame)
    then have "\<forall>u \<in> set (timers w). callback u = CountdownSample \<longrightarrow> u \<in> set (timers w')"
      using others ElapsedTick by simp
    ultimately show ?thesis using ElapsedTick by simp
  next
    case DeletedFlashEnd
    let ?w1 = "w\<lparr>timers := filter (\<lambda>u. tid u \<noteq> i) (timers w)\<rparr>"
    have tr1: "tracked ?w1" using tr by (rule tracked_filter)
    from DeletedFlashEnd w' have w'': "w' = ?w1\<lparr>textArea_deleted := False\<rparr>" by simp
    have "tracked w'" unfolding w'' using tr1 tracked_cong [of "?w1\<lparr>textArea_deleted := False\<rparr>" ?w1] by simp
    then have "decaying s w'" using g cs by (simp add: decaying_def w'')
    moreover have "\<forall>u \<in> set (timers w). callback u = CountdownSample \<longrightarrow> u \<in> set (timers w')"
      using others DeletedFlashEnd by (simp add: w'')
    ultimately show ?thesis using DeletedFlashEnd by (simp add: w'')
  next
    case SaveLabelRestore
    let ?w1 = "w\<lparr>timers := filter (\<lambda>u. tid u \<noteq> i) (timers w)\<rparr>"
    have tr1: "tracked ?w1" using tr by (rule tracked_filter)
    from SaveLabelRestore w' have w'': "w' = ?w1" by simp
    have "decaying s w'" using tr1 g cs by (simp add: decaying_def w'')
    moreover have "\<forall>u \<in> set (timers w). callback u = CountdownSample \<longrightarrow> u \<in> set (timers w')"
      using others SaveLabelRestore by (simp add: w'')
    ultimately show ?thesis using SaveLabelRestore by (simp add: w'')
  qed
  with tm d show ?thesis by blast
qed





lemma halted_fire:
  assumes "halted w" and "fire i w = Some w'"
  shows "halted w' \<and> log w' = log w \<and> timeoutSeconds w' = timeoutSeconds w"
proof -
  from assms(1) have tr: "tracked w" and g: "graceTimerId w = None"
    and c: "countdownTimerId w = None" and dis: "textArea_disabled w"
    by (simp_all add: halted_def)
  from fire_tracked [OF tr assms(2)] obtain tm where tm: "tm \<in> set (timers w)" "tid tm = i"
    and w': "w' = (case callback tm of
             GraceElapsed \<Rightarrow>
               beginActiveCountdown
                 (w\<lparr>timers := filter (\<lambda>u. tid u \<noteq> i) (timers w), graceTimerId := None\<rparr>)
           | CountdownSample \<Rightarrow>
               countdownSample
                 (w\<lparr>timers := map (\<lambda>u. if tid u = i then u\<lparr>due := now w + 100\<rparr> else u)
                                  (timers w)\<rparr>)
           | ElapsedTick \<Rightarrow>
               elapsedTick
                 (w\<lparr>timers := map (\<lambda>u. if tid u = i then u\<lparr>due := now w + 1000\<rparr> else u)
                                  (timers w)\<rparr>)
           | DeletedFlashEnd \<Rightarrow>
               w\<lparr>timers := filter (\<lambda>u. tid u \<noteq> i) (timers w), textArea_deleted := False\<rparr>
           | SaveLabelRestore \<Rightarrow> w\<lparr>timers := filter (\<lambda>u. tid u \<noteq> i) (timers w)\<rparr>)"
    by blast
  show ?thesis
  proof (cases "callback tm")
    case GraceElapsed
    with tracked_grace [OF tr tm(1)] g show ?thesis by simp
  next
    case CountdownSample
    with tracked_sample [OF tr tm(1)] c show ?thesis by simp
  next
    case ElapsedTick
    let ?w1 = "w\<lparr>timers := map (\<lambda>u. if tid u = i then u\<lparr>due := now w + 1000\<rparr> else u) (timers w)\<rparr>"
    have tr1: "tracked ?w1" using tr by (rule tracked_reschedule)
    from ElapsedTick w' have w'': "w' = elapsedTick ?w1" by simp
    show ?thesis unfolding w'' using tr1 g c dis
      by (simp add: halted_def tracked_elapsedTick elapsedTick_frame)
  next
    case DeletedFlashEnd
    let ?w1 = "w\<lparr>timers := filter (\<lambda>u. tid u \<noteq> i) (timers w)\<rparr>"
    have tr1: "tracked ?w1" using tr by (rule tracked_filter)
    from DeletedFlashEnd w' have w'': "w' = ?w1\<lparr>textArea_deleted := False\<rparr>" by simp
    have "tracked w'" unfolding w''
      using tr1 tracked_cong [of "?w1\<lparr>textArea_deleted := False\<rparr>" ?w1] by simp
    then show ?thesis using g c dis by (simp add: halted_def w'')
  next
    case SaveLabelRestore
    let ?w1 = "w\<lparr>timers := filter (\<lambda>u. tid u \<noteq> i) (timers w)\<rparr>"
    have tr1: "tracked ?w1" using tr by (rule tracked_filter)
    from SaveLabelRestore w' have w'': "w' = ?w1" by simp
    show ?thesis using tr1 g c dis by (simp add: halted_def w'')
  qed
qed






section \<open>Runs\<close>

lemma tracked_now [simp]: "tracked (w\<lparr>now := t\<rparr>) = tracked w"
  by (rule tracked_cong) simp_all

lemma tracked_text [simp]: "tracked (w\<lparr>textArea_value := x\<rparr>) = tracked w"
  by (rule tracked_cong) simp_all

lemma in_grace_now [simp]: "in_grace a (w\<lparr>now := t\<rparr>) = in_grace a w"
  by (simp add: in_grace_def)

lemma decaying_now [simp]: "decaying s (w\<lparr>now := t\<rparr>) = decaying s w"
  by (simp add: decaying_def)

lemma halted_now [simp]: "halted (w\<lparr>now := t\<rparr>) = halted w"
  by (simp add: halted_def)

lemma quiet_since_now [simp]: "quiet_since a (w\<lparr>now := t\<rparr>) = quiet_since a w"
  by (simp add: quiet_since_def split: option.splits)










lemma idle_now [simp]: "idle (w\<lparr>now := t\<rparr>) = idle w"
  by (simp add: idle_def no_effect_def)











lemma run_on_time_run: "run_on_time es w = Some w' \<Longrightarrow> run es w = Some w'"
  by (induction es arbitrary: w) (auto split: if_splits option.splits)




lemma idle_timeout [simp]: "idle (w\<lparr>timeoutSeconds := x\<rparr>) = idle w"
  by (simp add: idle_def tracked_def no_effect_def)

lemma startPauseTimeout_eq:
  "startPauseTimeout p =
     p\<lparr>timers' := filter (\<lambda>t. Some (tid t) \<noteq> pauseTimerId p) (timers' p)
                   @ [\<lparr>tid = nextTimerId' p, due = now' p + toDelay (timeoutSeconds' p * 1000),
                       period = None, callback = PauseElapsed\<rparr>],
       nextTimerId' := Suc (nextTimerId' p),
       pauseTimerId := Some (nextTimerId' p)\<rparr>"
proof -
  have a: "(case pauseTimerId p of Some i \<Rightarrow> clearTimer' i p | None \<Rightarrow> p)
     = p\<lparr>timers' := filter (\<lambda>t. Some (tid t) \<noteq> pauseTimerId p) (timers' p)\<rparr>"
    by (cases p) (simp add: clearTimer'_def split: option.splits)
  show ?thesis by (simp add: startPauseTimeout_def a setTimeout'_def Let_def)
qed








lemma decay_run:
  "decaying s w \<Longrightarrow>
   \<forall>e \<in> set es. is_timer (snd e) \<and> real_of_int (fst e - s) < 1000 * timeoutSeconds w \<Longrightarrow>
   run es w = Some w' \<Longrightarrow>
   decaying s w' \<and> destroyed (log w') = destroyed (log w) \<and> timeoutSeconds w' = timeoutSeconds w"
proof (induction es arbitrary: w)
  case Nil
  then show ?case by simp
next
  case (Cons e es)
  obtain t ev where e: "e = (t, ev)" by (cases e)
  from Cons.prems(2) e obtain i where ev: "ev = TimerFires i"
    and t: "real_of_int (t - s) < 1000 * timeoutSeconds w" by (cases ev) simp_all
  from Cons.prems(3) e obtain w1 where h: "handle ev (w\<lparr>now := t\<rparr>) = Some w1"
    and r: "run es w1 = Some w'" by (auto split: if_splits option.splits)
  from h ev have f: "fire i (w\<lparr>now := t\<rparr>) = Some w1" by (simp add: handle_def)
  from Cons.prems(1) have "decaying s (w\<lparr>now := t\<rparr>)" by simp
  from decaying_fire [OF this f] obtain tm :: "callback timer" where
    tm0: "tm \<in> set (timers (w\<lparr>now := t\<rparr>))"
    and rest: "tid tm = i \<and> due tm \<le> now (w\<lparr>now := t\<rparr>) \<and>
     (callback tm = CountdownSample
        \<and> 1000 * timeoutSeconds (w\<lparr>now := t\<rparr>) \<le> real_of_int (now (w\<lparr>now := t\<rparr>) - s)
        \<longrightarrow> halted w1 \<and> destroyed (log w1) = Suc (destroyed (log (w\<lparr>now := t\<rparr>)))) \<and>
     (\<not> (callback tm = CountdownSample
        \<and> 1000 * timeoutSeconds (w\<lparr>now := t\<rparr>) \<le> real_of_int (now (w\<lparr>now := t\<rparr>) - s))
        \<longrightarrow> decaying s w1 \<and> destroyed (log w1) = destroyed (log (w\<lparr>now := t\<rparr>))
           \<and> timeoutSeconds w1 = timeoutSeconds (w\<lparr>now := t\<rparr>)
           \<and> (callback tm = CountdownSample \<longrightarrow> tm\<lparr>due := now (w\<lparr>now := t\<rparr>) + 100\<rparr> \<in> set (timers w1))
           \<and> (callback tm \<noteq> CountdownSample \<longrightarrow>
                (\<forall>u \<in> set (timers (w\<lparr>now := t\<rparr>)). callback u = CountdownSample \<longrightarrow> u \<in> set (timers w1))))"
    ..
  note c2 = rest [THEN conjunct2, THEN conjunct2, THEN conjunct2]
  from t have "\<not> (callback tm = CountdownSample
        \<and> 1000 * timeoutSeconds (w\<lparr>now := t\<rparr>) \<le> real_of_int (now (w\<lparr>now := t\<rparr>) - s))" by simp
  with c2 have 1: "decaying s w1" "destroyed (log w1) = destroyed (log w)"
    "timeoutSeconds w1 = timeoutSeconds w" by simp_all
  from Cons.IH [OF 1(1) _ r] Cons.prems(2) 1 show ?case by simp
qed

lemma decay_deadline:
  assumes "decaying s w" and "tm \<in> set (timers w)" and "callback tm = CountdownSample"
    and "1000 * timeoutSeconds w \<le> real_of_int (now w - s)" and "fire (tid tm) w = Some w'"
  shows "halted w' \<and> destroyed (log w') = Suc (destroyed (log w))"
proof -
  from assms(1) have tr: "tracked w" by (simp add: decaying_def)
  from decaying_fire [OF assms(1,5)] obtain um :: "callback timer" where
    um0: "um \<in> set (timers w)"
    and rest: "tid um = tid tm \<and> due um \<le> now w \<and>
     (callback um = CountdownSample \<and> 1000 * timeoutSeconds w \<le> real_of_int (now w - s)
        \<longrightarrow> halted w' \<and> destroyed (log w') = Suc (destroyed (log w))) \<and>
     (\<not> (callback um = CountdownSample \<and> 1000 * timeoutSeconds w \<le> real_of_int (now w - s))
        \<longrightarrow> decaying s w' \<and> destroyed (log w') = destroyed (log w)
           \<and> timeoutSeconds w' = timeoutSeconds w
           \<and> (callback um = CountdownSample \<longrightarrow> um\<lparr>due := now w + 100\<rparr> \<in> set (timers w'))
           \<and> (callback um \<noteq> CountdownSample \<longrightarrow>
                (\<forall>u \<in> set (timers w). callback u = CountdownSample \<longrightarrow> u \<in> set (timers w'))))"
    ..
  from rest have "tid um = tid tm" by simp
  from tid_unique [OF tr um0 assms(2) this] have "um = tm" .
  with rest assms(3,4) show ?thesis by simp
qed

lemma remaining_deadline:
  assumes "countdownStart w = Some s"
  shows "remaining w = max 0 (timeoutSeconds w - real_of_int (now w - s) / 1000)"
    and "remaining w \<le> 0 \<longleftrightarrow> real_of_int s + 1000 * timeoutSeconds w \<le> real_of_int (now w)"
  using assms by (auto simp: remaining_def elapsed_def toNumber_def)

lemma countdownSample_cancels:
  assumes "remaining w \<le> 0"
  shows "countdownTimerId (countdownSample w) = None"
    and "\<forall>t \<in> set (timers (countdownSample w)). Some (tid t) = countdownTimerId w \<longrightarrow> callback t = DeletedFlashEnd"
proof -
  from assms have e: "countdownSample w = handleTextDeletion (sampled w)"
    by (simp add: countdownSample_alt)
  show "countdownTimerId (countdownSample w) = None" by (simp add: e handleTextDeletion_handles)
  show "\<forall>t \<in> set (timers (countdownSample w)). Some (tid t) = countdownTimerId w \<longrightarrow> callback t = DeletedFlashEnd"
    unfolding e by (subst handleTextDeletion_eq) (auto simp: sampled_frame)
qed

lemma blurTick_log:
  "destroyed (log' (blurTick p)) = destroyed (log' p) + (if 19 \<le> blurAmount p then 1 else 0)"
  by (simp add: blurTick_def Let_def handleTextDeletion'_def setTimeout'_def clearAllTimers'_eq
      BLUR_INCREMENT_def BLUR_MAX_def)

lemma blurTick_keep:
  assumes "blurAmount p < 19"
  shows "blurAmount (blurTick p) = blurAmount p + 1"
    and "pauseTimer_text' (blurTick p)
         = max 0 (timeoutSeconds' p - real_of_int (blurAmount p + 1) / 20 * timeoutSeconds' p)"
    and "isActive' (blurTick p) = isActive' p"
  using assms by (simp_all add: blurTick_def Let_def BLUR_INCREMENT_def BLUR_MAX_def)


lemma tick_progress_append: "tick_progress (l @ m) = tick_progress l @ tick_progress m"
  by (induction l rule: tick_progress.induct) simp_all

lemma tick_progress_deletion_obs [simp]: "tick_progress (deletion_obs w) = []"
  by (simp add: deletion_obs_def)

lemma progress_at_mono:
  assumes "0 < T" and "t \<le> u"
  shows "progress_at T s u \<le> progress_at T s t"
proof -
  have "real_of_int (t - s) / 1000 \<le> real_of_int (u - s) / 1000" using assms(2) by simp
  then have "max 0 (T - real_of_int (u - s) / 1000) \<le> max 0 (T - real_of_int (t - s) / 1000)"
    by (simp add: max_def)
  then show ?thesis using assms(1) by (simp add: progress_at_def divide_right_mono)
qed

lemma progress_progress_at:
  "countdownStart w = Some s \<Longrightarrow> progress w = progress_at (timeoutSeconds w) s (now w)"
  by (simp add: progress_def remaining_def elapsed_def toNumber_def progress_at_def)

lemma fire_now: "tracked w \<Longrightarrow> fire i w = Some w' \<Longrightarrow> now w' = now w"
proof -
  assume tr: "tracked w" and f: "fire i w = Some w'"
  from fire_tracked [OF tr f] obtain tm :: "callback timer" where
    w': "w' = (case callback tm of
             GraceElapsed \<Rightarrow>
               beginActiveCountdown
                 (w\<lparr>timers := filter (\<lambda>u. tid u \<noteq> i) (timers w), graceTimerId := None\<rparr>)
           | CountdownSample \<Rightarrow>
               countdownSample
                 (w\<lparr>timers := map (\<lambda>u. if tid u = i then u\<lparr>due := now w + 100\<rparr> else u)
                                  (timers w)\<rparr>)
           | ElapsedTick \<Rightarrow>
               elapsedTick
                 (w\<lparr>timers := map (\<lambda>u. if tid u = i then u\<lparr>due := now w + 1000\<rparr> else u)
                                  (timers w)\<rparr>)
           | DeletedFlashEnd \<Rightarrow>
               w\<lparr>timers := filter (\<lambda>u. tid u \<noteq> i) (timers w), textArea_deleted := False\<rparr>
           | SaveLabelRestore \<Rightarrow> w\<lparr>timers := filter (\<lambda>u. tid u \<noteq> i) (timers w)\<rparr>)"
    by blast
  have dn: "now (handleTextDeletion v) = now v" for v
    by (simp add: handleTextDeletion_def Let_def setTimeout_eq clearAllTimers_eq saveToHistory_frame)
  show ?thesis unfolding w'
    by (cases "callback tm")
       (simp_all add: beginActiveCountdown_eq countdownSample_alt sampled_frame dn
         elapsedTick_def split: option.splits)
qed

text \<open>What one callback in a countdown adds to the log.\<close>

lemma decaying_fire_log:
  assumes "decaying s w" and "fire i w = Some w'"
  shows "\<exists>d. log w' = log w @ d \<and>
           (tick_progress d = [] \<or> tick_progress d = [progress_at (timeoutSeconds w) s (now w)])"
proof -
  from assms(1) have tr: "tracked w" and cs: "countdownStart w = Some s"
    by (simp_all add: decaying_def)
  from fire_tracked [OF tr assms(2)] obtain tm :: "callback timer" where
    w': "w' = (case callback tm of
             GraceElapsed \<Rightarrow>
               beginActiveCountdown
                 (w\<lparr>timers := filter (\<lambda>u. tid u \<noteq> i) (timers w), graceTimerId := None\<rparr>)
           | CountdownSample \<Rightarrow>
               countdownSample
                 (w\<lparr>timers := map (\<lambda>u. if tid u = i then u\<lparr>due := now w + 100\<rparr> else u)
                                  (timers w)\<rparr>)
           | ElapsedTick \<Rightarrow>
               elapsedTick
                 (w\<lparr>timers := map (\<lambda>u. if tid u = i then u\<lparr>due := now w + 1000\<rparr> else u)
                                  (timers w)\<rparr>)
           | DeletedFlashEnd \<Rightarrow>
               w\<lparr>timers := filter (\<lambda>u. tid u \<noteq> i) (timers w), textArea_deleted := False\<rparr>
           | SaveLabelRestore \<Rightarrow> w\<lparr>timers := filter (\<lambda>u. tid u \<noteq> i) (timers w)\<rparr>)"
    by blast
  show ?thesis
  proof (cases "callback tm = CountdownSample")
    case True
    let ?w1 = "w\<lparr>timers := map (\<lambda>u. if tid u = i then u\<lparr>due := now w + 100\<rparr> else u) (timers w)\<rparr>"
    from True w' have w'': "w' = countdownSample ?w1" by simp
    have p: "progress ?w1 = progress_at (timeoutSeconds w) s (now w)"
      using progress_progress_at [of ?w1 s] cs by simp
    let ?d = "DecayTick (progress ?w1) (remaining ?w1) (heartbeatCount ?w1 < \<lfloor>elapsed ?w1\<rfloor>)
              # (if remaining ?w1 \<le> 0 then deletion_obs ?w1 else [])"
    have "log w' = log w @ ?d" unfolding w'' countdownSample_log by simp
    moreover have "tick_progress ?d = [progress_at (timeoutSeconds w) s (now w)]"
      using p by simp
    ultimately show ?thesis by blast
  next
    case False
    then have "log w' = log w" unfolding w'
      by (cases "callback tm") (simp_all add: beginActiveCountdown_eq elapsedTick_frame)
    then show ?thesis by simp
  qed
qed

lemma sorted_rev_append:
  "sorted (rev a) \<Longrightarrow> sorted (rev b) \<Longrightarrow> (\<forall>x \<in> set b. \<forall>y \<in> set a. x \<le> y) \<Longrightarrow>
   sorted (rev (a @ b))"
  by (auto simp: sorted_append)


lemma decaying_fire_next:
  assumes "decaying s w" and "fire i w = Some w'"
  shows "halted w' \<or> (decaying s w' \<and> timeoutSeconds w' = timeoutSeconds w)"
proof -
  from decaying_fire [OF assms] obtain um :: "callback timer" where
    um0: "um \<in> set (timers w)"
    and rest: "tid um = i \<and> due um \<le> now w \<and>
     (callback um = CountdownSample \<and> 1000 * timeoutSeconds w \<le> real_of_int (now w - s)
        \<longrightarrow> halted w' \<and> destroyed (log w') = Suc (destroyed (log w))) \<and>
     (\<not> (callback um = CountdownSample \<and> 1000 * timeoutSeconds w \<le> real_of_int (now w - s))
        \<longrightarrow> decaying s w' \<and> destroyed (log w') = destroyed (log w)
           \<and> timeoutSeconds w' = timeoutSeconds w
           \<and> (callback um = CountdownSample \<longrightarrow> um\<lparr>due := now w + 100\<rparr> \<in> set (timers w'))
           \<and> (callback um \<noteq> CountdownSample \<longrightarrow>
                (\<forall>u \<in> set (timers w). callback u = CountdownSample \<longrightarrow> u \<in> set (timers w'))))"
    ..
  note c1 = rest [THEN conjunct2, THEN conjunct2, THEN conjunct1]
  note c2 = rest [THEN conjunct2, THEN conjunct2, THEN conjunct2]
  show ?thesis
  proof (cases "callback um = CountdownSample \<and> 1000 * timeoutSeconds w \<le> real_of_int (now w - s)")
    case True
    with c1 show ?thesis by simp
  next
    case False
    with c2 show ?thesis by simp
  qed
qed

text \<open>
  The samples of one countdown with an unchanged, positive timeout report a progress that
  never increases, on any host.
\<close>

lemma progress_run:
  "(decaying s w \<and> timeoutSeconds w = T) \<or> halted w \<Longrightarrow> 0 < T \<Longrightarrow>
   \<forall>e \<in> set es. is_timer (snd e) \<Longrightarrow> run es w = Some w' \<Longrightarrow>
   \<exists>new. log w' = log w @ new \<and> sorted (rev (tick_progress new)) \<and>
     (\<forall>p \<in> set (tick_progress new). p \<le> progress_at T s (now w)) \<and>
     (halted w \<longrightarrow> tick_progress new = [])"
proof (induction es arbitrary: w)
  case Nil
  then show ?case by simp
next
  case (Cons e es)
  obtain t ev where e: "e = (t, ev)" by (cases e)
  from Cons.prems(3) e obtain i where ev: "ev = TimerFires i" by (cases ev) simp_all
  from Cons.prems(4) e obtain w1 where tn: "now w \<le> t"
    and h: "handle ev (w\<lparr>now := t\<rparr>) = Some w1"
    and r: "run es w1 = Some w'" by (auto split: if_splits option.splits)
  from h ev have f: "fire i (w\<lparr>now := t\<rparr>) = Some w1" by (simp add: handle_def)
  from Cons.prems(3) have es: "\<forall>e \<in> set es. is_timer (snd e)" by simp
  have mono: "progress_at T s t \<le> progress_at T s (now w)"
    using progress_at_mono [OF Cons.prems(2) tn] .
  show ?case
  proof (cases "halted w")
    case True
    then have "halted (w\<lparr>now := t\<rparr>)" by simp
    from halted_fire [OF this f] have 1: "halted w1" "log w1 = log w" by simp_all
    from 1(1) have "(decaying s w1 \<and> timeoutSeconds w1 = T) \<or> halted w1" by simp
    from Cons.IH [OF this Cons.prems(2) es r] obtain new where
      n: "log w' = log w1 @ new" "tick_progress new = []" using 1(1) by blast
    show ?thesis
    proof (rule exI [of _ new])
      show "log w' = log w @ new \<and> sorted (rev (tick_progress new)) \<and>
        (\<forall>p \<in> set (tick_progress new). p \<le> progress_at T s (now w)) \<and>
        (halted w \<longrightarrow> tick_progress new = [])" using n 1(2) by simp
    qed
  next
    case False
    with Cons.prems(1) have d: "decaying s w" and T: "timeoutSeconds w = T" by simp_all
    from d have dt: "decaying s (w\<lparr>now := t\<rparr>)" by simp
    from decaying_fire_next [OF dt f] T
    have nx: "(decaying s w1 \<and> timeoutSeconds w1 = T) \<or> halted w1" by auto
    from dt have "tracked (w\<lparr>now := t\<rparr>)" by (simp add: decaying_def)
    from fire_now [OF this f] have n1: "now w1 = t" by simp
    from decaying_fire_log [OF dt f] T obtain d where
      d1: "log w1 = log w @ d"
      and d2: "tick_progress d = [] \<or> tick_progress d = [progress_at T s t]" by auto
    from Cons.IH [OF nx Cons.prems(2) es r] n1 obtain new where
      n: "log w' = log w1 @ new" "sorted (rev (tick_progress new))"
         "\<forall>p \<in> set (tick_progress new). p \<le> progress_at T s t" by auto
    have s1: "sorted (rev (tick_progress (d @ new)))"
      unfolding tick_progress_append
    proof (rule sorted_rev_append)
      show "sorted (rev (tick_progress d))" using d2 by auto
      show "sorted (rev (tick_progress new))" by (rule n(2))
      show "\<forall>x \<in> set (tick_progress new). \<forall>y \<in> set (tick_progress d). x \<le> y"
        using d2 n(3) by auto
    qed
    have s2: "\<forall>p \<in> set (tick_progress (d @ new)). p \<le> progress_at T s (now w)"
      unfolding tick_progress_append using d2 n(3) mono by auto
    show ?thesis
    proof (rule exI [of _ "d @ new"])
      show "log w' = log w @ d @ new \<and> sorted (rev (tick_progress (d @ new))) \<and>
        (\<forall>p \<in> set (tick_progress (d @ new)). p \<le> progress_at T s (now w)) \<and>
        (halted w \<longrightarrow> tick_progress (d @ new) = [])"
        using n(1) d1 s1 s2 False by simp
    qed
  qed
qed

lemma baseBlur_range:
  assumes "0 < timeoutSeconds w"
  shows "baseBlur w \<le> 10 \<and> (baseBlur w = 10 \<longleftrightarrow> remaining w = 0) \<and>
         (toNumber (countdownStart w) \<le> now w \<longrightarrow> 0 \<le> baseBlur w)"
proof -
  have r: "0 \<le> remaining w" by (simp add: remaining_def)
  then have p0: "0 \<le> progress w" using assms by (simp add: progress_def)
  have pz: "progress w = 0 \<longleftrightarrow> remaining w = 0" using assms by (simp add: progress_def)
  have "progress w \<le> 1" if "toNumber (countdownStart w) \<le> now w"
  proof -
    from that have "0 \<le> elapsed w" by (simp add: elapsed_def)
    then have "remaining w \<le> timeoutSeconds w" using assms by (simp add: remaining_def)
    then show ?thesis using assms by (simp add: progress_def)
  qed
  with p0 pz show ?thesis by (auto simp: baseBlur_def)
qed

section \<open>Evaluation\<close>

lemmas eval_defs =
  handle_def fire_def runCallback_def graceElapsed_def elapsedTick_def
  startSession_eq handleInput_eq resetSession_eq beginActiveCountdown_eq
  countdownSample_alt sampled_def handleTextDeletion_def clearAllTimers_eq saveToHistory_def
  setTimeout_eq
  elapsed_def remaining_def progress_def baseBlur_def beatPulse_def toNumber_def
  handleTimeoutChange_def saveSettings_def parseInt_def isDigit_def digitsValue_def
  loadDraft_def saveDraft_def continueFromHistory_def
  js_def isWhiteSpace_def trim_def countWords_def
  initial_def DEFAULT_TIMEOUT_def MAX_HISTORY_def Let_def

section \<open>The claims\<close>

text \<open>
  C8.  On every deletion the trimmed text of the buffer is handed to \<open>saveToHistory\<close> if
  and only if its word count is at least 3, where the word count computed by the page is
  the number of maximal runs of characters that are not white space, and is 0 for a text
  that is empty or white space only; afterwards the buffer is empty and the session is
  not active.
\<close>

theorem C8_deletion_archives_from_three_words:
  "countWords s = nonspace_runs s
   \<and> ((\<forall>c \<in> set s. isWhiteSpace c) \<longrightarrow> countWords s = 0)
   \<and> log (handleTextDeletion w) =
       log w @ TextDestroyed (trim (textArea_value w)) (nonspace_runs (textArea_value w))
             # (if 3 \<le> nonspace_runs (textArea_value w)
                then [Archived (trim (textArea_value w)) (nonspace_runs (textArea_value w))]
                else [])
   \<and> history (handleTextDeletion w) =
       (if 3 \<le> nonspace_runs (textArea_value w)
        then take MAX_HISTORY
               (\<lparr>entry_id = now w, entry_text = trim (textArea_value w),
                 entry_wordCount = nonspace_runs (textArea_value w), entry_savedAt = now w\<rparr>
                # history w)
        else history w)
   \<and> textArea_value (handleTextDeletion w) = []
   \<and> \<not> isActive (handleTextDeletion w)"
  using handleTextDeletion_log [of w] handleTextDeletion_history [of w]
  by (simp add: countWords_runs [symmetric] countWords_blank handleTextDeletion_session)

theorem C8_witness:
  "countWords (js ''  '') = 0
   \<and> log (handleTextDeletion ((initial 0)\<lparr>textArea_value := js ''the quick brown fox''\<rparr>)) =
       [TextDestroyed (js ''the quick brown fox'') 4, Archived (js ''the quick brown fox'') 4]
   \<and> log (handleTextDeletion ((initial 0)\<lparr>textArea_value := js ''two words ''\<rparr>)) =
       [TextDestroyed (js ''two words'') 2]
   \<and> history (handleTextDeletion ((initial 0)\<lparr>textArea_value := js ''two words ''\<rparr>)) = []"
  using C8_deletion_archives_from_three_words
          [of "js ''  ''" "(initial 0)\<lparr>textArea_value := js ''the quick brown fox''\<rparr>"]
        C8_deletion_archives_from_three_words
          [of "js ''  ''" "(initial 0)\<lparr>textArea_value := js ''two words ''\<rparr>"]
  by (simp add: js_def nonspace_runs_def trim_def isWhiteSpace_def initial_def)






text \<open>
  C10.  Neither \<open>resetSession\<close> nor \<open>handleTextDeletion\<close> changes \<open>timeoutSeconds\<close>, and
  no event other than a change of the timeout setting does: the field is written by
  \<open>handleTimeoutChange\<close> and by \<open>loadSettings\<close> only.
\<close>

theorem C10_timeout_is_framed:
  "timeoutSeconds (resetSession w) = timeoutSeconds w
   \<and> timeoutSeconds (handleTextDeletion w) = timeoutSeconds w
   \<and> ((\<forall>v. ev \<noteq> ChangeTimeout v) \<longrightarrow> handle ev w = Some w' \<longrightarrow> timeoutSeconds w' = timeoutSeconds w)"
  using handle_timeout [of ev w w']
  by (simp add: resetSession_eq handleTextDeletion_session)


theorem C10_witness:
  "timeoutSeconds (resetSession (startSession None (initial 0))) = 5
   \<and> timeoutSeconds (handleTextDeletion (startSession None (initial 0))) = 5
   \<and> handle KeyEscape (startSession None (initial 0))
       = Some (resetSession (startSession None (initial 0)))"
proof -
  have h: "handle KeyEscape (startSession None (initial 0))
           = Some (resetSession (startSession None (initial 0)))"
    by (simp add: handle_def startSession_eq)
  have t: "timeoutSeconds (startSession None (initial 0)) = 5"
    by (simp add: startSession_eq initial_def DEFAULT_TIMEOUT_def)
  from C10_timeout_is_framed [of "startSession None (initial 0)" KeyEscape
         "resetSession (startSession None (initial 0))"] h t
  show ?thesis by simp
qed

text \<open>
  C7.  \<open>handleTimeoutChange\<close> rejects a value outside 1 to 30 and keeps the previous
  \<open>timeoutSeconds\<close>, and accepts a value inside the range.  \<open>loadSettings\<close>, which
  \<open>init\<close> runs on startup, has no such check: a stored timeout of 100, or of -3,
  becomes \<open>timeoutSeconds\<close>.
\<close>

theorem C7_loadSettings_accepts_out_of_range:
  "timeoutSeconds (init ((initial t)\<lparr>stored_settings :=
       Some \<lparr>settings_timeout = Some 100, settings_lightMode = False\<rparr>\<rparr>)) = 100
   \<and> timeoutSeconds (init ((initial t)\<lparr>stored_settings :=
       Some \<lparr>settings_timeout = Some (- 3), settings_lightMode = False\<rparr>\<rparr>)) = - 3
   \<and> timeoutSeconds (handleTimeoutChange (js ''100'') (initial t)) = 5
   \<and> timeoutSeconds (handleTimeoutChange (js ''-3'') (initial t)) = 5
   \<and> timeoutSeconds (handleTimeoutChange (js ''30'') (initial t)) = 30"
  by (simp add: init_def loadSettings_timeout handleTimeoutChange_range parseInt_def js_def
      isWhiteSpace_def isDigit_def digitsValue_def initial_def DEFAULT_TIMEOUT_def)


text \<open>
  C5.  The claim that a change of \<open>timeoutSeconds\<close> during a countdown takes effect on
  the next phase only fails: with a timeout of 5 s, a countdown that started at 1000 and a
  change to 1 s at 1150, the sample at 1200 reports 0.8 s remaining, where the value
  captured at the start of the countdown would give 4.8 s.
\<close>

theorem C5_counterexample:
  "map_option log
     (run [(0, ClickStart), (1000, TimerFires 2), (1100, TimerFires 3),
           (1150, ChangeTimeout (js ''1'')), (1200, TimerFires 3)] (initial 0))
   = Some [SessionStarted, DecayTick (49 / 50) (49 / 10) False, DecayTick (4 / 5) (4 / 5) False]
   \<and> max 0 (5 - real_of_int (1200 - 1000) / 1000) = 24 / 5"
  by (simp add: eval_defs)


text \<open>
  C5, as amended.  \<open>timeoutSeconds\<close> is not captured when the countdown starts: an
  accepted change of the setting keeps the countdown and its start time, and the next
  sample of the same countdown computes \<open>remaining\<close> and \<open>progress\<close> from the new value.
\<close>

theorem C5_timeout_change_applies_to_next_sample:
  assumes "parseInt v = Some n" and "1 \<le> n" and "n \<le> 30"
  shows "timeoutSeconds (handleTimeoutChange v w) = of_int n
   \<and> countdownStart (handleTimeoutChange v w) = countdownStart w
   \<and> countdownActive (handleTimeoutChange v w) = countdownActive w
   \<and> countdownTimerId (handleTimeoutChange v w) = countdownTimerId w
   \<and> timers (handleTimeoutChange v w) = timers w
   \<and> remaining ((handleTimeoutChange v w)\<lparr>now := t\<rparr>)
       = max 0 (of_int n - real_of_int (t - toNumber (countdownStart w)) / 1000)
   \<and> progress ((handleTimeoutChange v w)\<lparr>now := t\<rparr>)
       = max 0 (of_int n - real_of_int (t - toNumber (countdownStart w)) / 1000) / of_int n
   \<and> log (countdownSample ((handleTimeoutChange v w)\<lparr>now := t\<rparr>))
       = log w @ DecayTick (progress ((handleTimeoutChange v w)\<lparr>now := t\<rparr>))
                           (remaining ((handleTimeoutChange v w)\<lparr>now := t\<rparr>))
                           (heartbeatCount w < \<lfloor>real_of_int (t - toNumber (countdownStart w)) / 1000\<rfloor>)
               # (if remaining ((handleTimeoutChange v w)\<lparr>now := t\<rparr>) \<le> 0
                  then deletion_obs w else [])"
proof -
  have eq: "handleTimeoutChange v w =
          w\<lparr>timeoutSeconds := of_int n, pauseTimer_text := of_int n,
            timeoutDisplay_text := of_int n,
            stored_settings := Some \<lparr>settings_timeout = Some (of_int n),
                                      settings_lightMode = lightMode w\<rparr>\<rparr>"
    using assms by (simp add: handleTimeoutChange_eq)
  show ?thesis
    unfolding countdownSample_log
    by (simp add: eq remaining_def progress_def elapsed_def deletion_obs_def)
qed

theorem C5_witness:
  "parseInt (js ''2'') = Some 2
   \<and> remaining ((handleTimeoutChange (js ''2'') ((initial 0)\<lparr>countdownStart := Some 1000\<rparr>))\<lparr>now := 4000\<rparr>) = 0
   \<and> timeoutSeconds (handleTimeoutChange (js ''2'') ((initial 0)\<lparr>countdownStart := Some 1000\<rparr>)) = 2"
proof -
  have p: "parseInt (js ''2'') = Some 2"
    by (simp add: parseInt_def js_def isWhiteSpace_def isDigit_def digitsValue_def)
  from C5_timeout_change_applies_to_next_sample
         [OF p, of "(initial 0)\<lparr>countdownStart := Some 1000\<rparr>" 4000] p
  show ?thesis by (simp add: toNumber_def)
qed












text \<open>
  C1.  The claim fails on \<open>startBlurEffect\<close> of \<open>static/js/main.js\<close>, which it cites: that
  engine counts ticks.  With a timeout of 1 s and a blur that began at 1000, the tick at
  2000 shows 0.8 s left and deletes nothing, although a second has passed on the clock;
  the deletion comes with the twentieth tick.
\<close>

theorem C1_counterexample:
  "timeoutSeconds' blurred = 1 \<and> pauseTime blurred = Some 1000 \<and> now' blurred = 2000
   \<and> max 0 (1 - real_of_int (2000 - 1000) / 1000) = (0 :: real)
   \<and> pauseTimer_text' blurred = 4 / 5
   \<and> blurAmount blurred = 4
   \<and> destroyed (log' blurred) = 0 \<and> isActive' blurred"
  by (simp add: blurred_def blurTick_def startBlurEffect_def startSession'_def
      startPauseTimeout_eq startElapsedTimer'_def setInterval'_def initial'_def toDelay_def
      BLUR_INCREMENT_def BLUR_MAX_def TICK_INTERVAL_def Let_def)


text \<open>
  C1, as amended.  In the engine with the grace timeout, every sample of a countdown
  that began at \<open>s\<close> computes \<open>remaining\<close> as the maximum of 0 and \<open>timeoutSeconds\<close> minus
  the seconds that the clock shows since \<open>s\<close>; it deletes the text if and only if
  \<open>remaining \<le> 0\<close>, that is, if and only if the clock has reached \<open>s\<close> plus \<open>timeoutSeconds\<close>,
  and it then cancels the sampling interval; so in a countdown whose timers the handles
  track, callbacks that run before the deadline delete nothing and the first sample at or
  after the deadline deletes once.  No counter enters the decision.  In
  \<open>static/js/main.js\<close> the deletion comes with the tick that brings \<open>blurAmount\<close> to 20,
  whatever the clock shows.
\<close>

theorem C1_deadline_from_the_clock:
  "(countdownStart w = Some s \<longrightarrow>
      remaining w = max 0 (timeoutSeconds w - real_of_int (now w - s) / 1000)
      \<and> (remaining w \<le> 0 \<longleftrightarrow> real_of_int s + 1000 * timeoutSeconds w \<le> real_of_int (now w)))
   \<and> log (countdownSample w) =
        log w @ DecayTick (progress w) (remaining w) (heartbeatCount w < \<lfloor>elapsed w\<rfloor>)
              # (if remaining w \<le> 0 then deletion_obs w else [])
   \<and> destroyed (log (countdownSample w)) = destroyed (log w) + (if remaining w \<le> 0 then 1 else 0)
   \<and> (remaining w \<le> 0 \<longrightarrow> countdownTimerId (countdownSample w) = None)
   \<and> (decaying s w \<longrightarrow>
        (\<forall>e \<in> set es. is_timer (snd e) \<and> real_of_int (fst e - s) < 1000 * timeoutSeconds w) \<longrightarrow>
        run es w = Some w1 \<longrightarrow> tm \<in> set (timers w1) \<longrightarrow> callback tm = CountdownSample \<longrightarrow>
        1000 * timeoutSeconds w \<le> real_of_int (t - s) \<longrightarrow>
        handle (TimerFires (tid tm)) (w1\<lparr>now := t\<rparr>) = Some w2 \<longrightarrow>
        destroyed (log w1) = destroyed (log w) \<and> destroyed (log w2) = Suc (destroyed (log w))
        \<and> halted w2)
   \<and> destroyed (log' (blurTick p)) = destroyed (log' p) + (if 19 \<le> blurAmount p then 1 else 0)"
proof (intro conjI impI)
  assume "countdownStart w = Some s"
  then show "remaining w = max 0 (timeoutSeconds w - real_of_int (now w - s) / 1000)"
    and "remaining w \<le> 0 \<longleftrightarrow> real_of_int s + 1000 * timeoutSeconds w \<le> real_of_int (now w)"
    by (rule remaining_deadline)+
next
  show l: "log (countdownSample w) =
        log w @ DecayTick (progress w) (remaining w) (heartbeatCount w < \<lfloor>elapsed w\<rfloor>)
              # (if remaining w \<le> 0 then deletion_obs w else [])"
    by (rule countdownSample_log)
  show "destroyed (log (countdownSample w)) = destroyed (log w) + (if remaining w \<le> 0 then 1 else 0)"
    unfolding l by simp
next
  assume "remaining w \<le> 0"
  then show "countdownTimerId (countdownSample w) = None" by (rule countdownSample_cancels)
next
  assume d: "decaying s w"
    and es: "\<forall>e \<in> set es. is_timer (snd e) \<and> real_of_int (fst e - s) < 1000 * timeoutSeconds w"
    and r: "run es w = Some w1" and tm: "tm \<in> set (timers w1)" "callback tm = CountdownSample"
    and t: "1000 * timeoutSeconds w \<le> real_of_int (t - s)"
    and h: "handle (TimerFires (tid tm)) (w1\<lparr>now := t\<rparr>) = Some w2"
  from decay_run [OF d es r]
  have 1: "decaying s w1" "destroyed (log w1) = destroyed (log w)"
    "timeoutSeconds w1 = timeoutSeconds w" by simp_all
  from 1(2) show "destroyed (log w1) = destroyed (log w)" .
  from h have f: "fire (tid tm) (w1\<lparr>now := t\<rparr>) = Some w2" by (simp add: handle_def)
  have "decaying s (w1\<lparr>now := t\<rparr>)" using 1(1) by simp
  moreover have "tm \<in> set (timers (w1\<lparr>now := t\<rparr>))" using tm(1) by simp
  moreover have "1000 * timeoutSeconds (w1\<lparr>now := t\<rparr>) \<le> real_of_int (now (w1\<lparr>now := t\<rparr>) - s)"
    using t 1(3) by simp
  ultimately have "halted w2 \<and> destroyed (log w2) = Suc (destroyed (log (w1\<lparr>now := t\<rparr>)))"
    using tm(2) f by (intro decay_deadline)
  with 1(2) show "destroyed (log w2) = Suc (destroyed (log w))" and "halted w2" by simp_all
next
  show "destroyed (log' (blurTick p)) = destroyed (log' p) + (if 19 \<le> blurAmount p then 1 else 0)"
    by (rule blurTick_log)
qed

theorem C1_witness:
  "decaying 1000 (the (fire 2 ((startSession None (initial 0))\<lparr>now := 1000\<rparr>)))
   \<and> run [(1100, TimerFires 3)] (the (fire 2 ((startSession None (initial 0))\<lparr>now := 1000\<rparr>))) \<noteq> None
   \<and> destroyed (log (the (run [(1100, TimerFires 3)]
                            (the (fire 2 ((startSession None (initial 0))\<lparr>now := 1000\<rparr>)))))) = 0
   \<and> remaining ((the (run [(1100, TimerFires 3)]
                      (the (fire 2 ((startSession None (initial 0))\<lparr>now := 1000\<rparr>)))))\<lparr>now := 6000\<rparr>) = 0
   \<and> destroyed (log (the (handle (TimerFires 3)
        ((the (run [(1100, TimerFires 3)]
                (the (fire 2 ((startSession None (initial 0))\<lparr>now := 1000\<rparr>)))))\<lparr>now := 6000\<rparr>)))) = 1
   \<and> destroyed (log' (blurTick blurred)) = 0"
proof -
  let ?w = "the (fire 2 ((startSession None (initial 0))\<lparr>now := 1000\<rparr>))"
  let ?w1 = "the (run [(1100, TimerFires 3)] ?w)"
  let ?w2 = "the (handle (TimerFires 3) (?w1\<lparr>now := 6000\<rparr>))"
  let ?tm = "\<lparr>tid = 3, due = 1200, period = Some 100, callback = CountdownSample\<rparr>"
  have d: "decaying 1000 ?w"
    by (simp add: decaying_def tracked_def interval_of_def COUNTDOWN_INTERVAL_def eval_defs)
  have T: "timeoutSeconds ?w = 5" "destroyed (log ?w) = 0" by (simp_all add: eval_defs)
  have es: "\<forall>e \<in> set [(1100 :: int, TimerFires 3)].
              is_timer (snd e) \<and> real_of_int (fst e - 1000) < 1000 * timeoutSeconds ?w"
    using T by simp
  have n: "run [(1100, TimerFires 3)] ?w \<noteq> None" by (simp add: eval_defs)
  then have r: "run [(1100, TimerFires 3)] ?w = Some ?w1" by simp
  have tm: "?tm \<in> set (timers ?w1)" by (simp add: eval_defs)
  have cs: "countdownStart (?w1\<lparr>now := 6000\<rparr>) = Some 1000"
    "timeoutSeconds (?w1\<lparr>now := 6000\<rparr>) = 5" by (simp_all add: eval_defs)
  have hn: "handle (TimerFires 3) (?w1\<lparr>now := 6000\<rparr>) \<noteq> None" by (simp add: eval_defs)
  then have h: "handle (TimerFires (tid ?tm)) (?w1\<lparr>now := 6000\<rparr>) = Some ?w2" by simp
  have dl: "1000 * timeoutSeconds ?w \<le> real_of_int (6000 - 1000)" using T by simp
  have b: "blurAmount blurred = 4" "destroyed (log' blurred) = 0"
    by (simp_all add: blurred_def blurTick_def startBlurEffect_def startSession'_def
      startPauseTimeout_eq startElapsedTimer'_def setInterval'_def initial'_def toDelay_def
      BLUR_INCREMENT_def BLUR_MAX_def TICK_INTERVAL_def Let_def)
  from C1_deadline_from_the_clock [where w = ?w and s = 1000 and es = "[(1100, TimerFires 3)]"
         and ?w1.0 = ?w1 and tm = ?tm and t = 6000 and ?w2.0 = ?w2 and p = blurred]
       d es r tm dl h T b
  have 1: "destroyed (log ?w1) = 0" "destroyed (log ?w2) = 1"
    "destroyed (log' (blurTick blurred)) = 0" by simp_all
  from C1_deadline_from_the_clock [where w = "?w1\<lparr>now := 6000\<rparr>" and s = 1000 and p = blurred] cs
  have 2: "remaining (?w1\<lparr>now := 6000\<rparr>) = 0" by simp
  from d n 1 2 show ?thesis by simp
qed


text \<open>
  The blur that a sample renders is the base blur plus the pulse of the heartbeat, and
  exceeds the greatest base blur of 10 px during a beat late in the countdown.
\<close>

lemma pulse_example:
  "baseBlur ((initial 0)\<lparr>countdownStart := Some 0, now := 4300, lastBeatTime := 4000\<rparr>)
     + beatPulse ((initial 0)\<lparr>countdownStart := Some 0, now := 4300, lastBeatTime := 4000\<rparr>)
   = 189 / 10"
  by (simp add: eval_defs)


text \<open>
  C4.  The progress of successive samples of one countdown can increase: the samples at
  1100 and 1200 of a countdown with a timeout of 5 s report 0.98 and 0.96, the writer
  sets the timeout to 30 s at 1250, which is no activity and leaves the countdown running,
  and the sample at 1300 reports 0.99.
\<close>

theorem C4_counterexample:
  "map_option log
     (run [(0, ClickStart), (1000, TimerFires 2), (1100, TimerFires 3), (1200, TimerFires 3),
           (1250, ChangeTimeout (js ''30'')), (1300, TimerFires 3)] (initial 0))
   = Some [SessionStarted, DecayTick (49 / 50) (49 / 10) False, DecayTick (24 / 25) (24 / 5) False,
           DecayTick (99 / 100) (297 / 10) False]
   \<and> (24 / 25 :: real) < 99 / 100"
  by (simp add: eval_defs)


text \<open>
  C4, as amended.  Within one countdown whose timers the handles track, as long as
  \<open>timeoutSeconds\<close> is positive and is not changed, the progress that successive samples
  report never increases, on any host: a sample at time \<open>t\<close> of a countdown that began at
  \<open>s\<close> reports \<open>max 0 (timeoutSeconds - (t - s) / 1000) / timeoutSeconds\<close>, which is 1 at
  \<open>s\<close> and does not increase with \<open>t\<close>.  Every activity removes the blur, sets the
  progress bar to 100 per cent at once and ends the countdown, the next one starting from
  1 again.  The base blur is \<open>(1 - progress) * 10\<close>; for a positive timeout it is at most
  10 and equals 10 exactly when \<open>remaining\<close> is 0, and it is not negative once the clock
  has reached the start of the countdown.  A change of \<open>timeoutSeconds\<close> during the
  countdown rescales the progress and can increase it.
\<close>

theorem C4_progress_never_increases_at_a_fixed_timeout:
  "(decaying s w \<longrightarrow> 0 < timeoutSeconds w \<longrightarrow> (\<forall>e \<in> set es. is_timer (snd e)) \<longrightarrow>
      run es w = Some w' \<longrightarrow>
      (\<exists>new. log w' = log w @ new \<and> sorted (rev (tick_progress new)) \<and>
         (\<forall>p \<in> set (tick_progress new). p \<le> progress_at (timeoutSeconds w) s (now w))))
   \<and> (countdownStart w = Some s \<longrightarrow> progress w = progress_at (timeoutSeconds w) s (now w))
   \<and> (0 < T \<longrightarrow> t \<le> u \<longrightarrow> progress_at T s u \<le> progress_at T s t)
   \<and> (0 < T \<longrightarrow> progress_at T s s = 1)
   \<and> progressBar_width (handleInput w) = 100
   \<and> countdownStart (handleInput w) = None
   \<and> textArea_filter (handleInput w) = None
   \<and> baseBlur w = (1 - progress w) * 10
   \<and> (0 < timeoutSeconds w \<longrightarrow>
        baseBlur w \<le> 10 \<and> (baseBlur w = 10 \<longleftrightarrow> remaining w = 0) \<and>
        (toNumber (countdownStart w) \<le> now w \<longrightarrow> 0 \<le> baseBlur w))"
proof -
  have 1: "\<exists>new. log w' = log w @ new \<and> sorted (rev (tick_progress new)) \<and>
         (\<forall>p \<in> set (tick_progress new). p \<le> progress_at (timeoutSeconds w) s (now w))"
    if d: "decaying s w" and T: "0 < timeoutSeconds w" and es: "\<forall>e \<in> set es. is_timer (snd e)"
      and r: "run es w = Some w'"
  proof -
    from d have "(decaying s w \<and> timeoutSeconds w = timeoutSeconds w) \<or> halted w" by simp
    from progress_run [OF this T es r] show ?thesis by blast
  qed
  have 2: "countdownStart w = Some s \<longrightarrow> progress w = progress_at (timeoutSeconds w) s (now w)"
    by (simp add: progress_progress_at)
  have 3: "0 < T \<longrightarrow> t \<le> u \<longrightarrow> progress_at T s u \<le> progress_at T s t"
    by (simp add: progress_at_mono)
  have 4: "0 < T \<longrightarrow> progress_at T s s = 1" by (simp add: progress_at_def)
  have 5: "progressBar_width (handleInput w) = 100" "countdownStart (handleInput w) = None"
    "textArea_filter (handleInput w) = None" by (simp_all add: handleInput_eq)
  have 6: "baseBlur w = (1 - progress w) * 10" by (simp add: baseBlur_def)
  have 7: "0 < timeoutSeconds w \<longrightarrow>
        baseBlur w \<le> 10 \<and> (baseBlur w = 10 \<longleftrightarrow> remaining w = 0) \<and>
        (toNumber (countdownStart w) \<le> now w \<longrightarrow> 0 \<le> baseBlur w)"
    using baseBlur_range [of w] by blast
  from 1 2 3 4 5 6 7 show ?thesis by blast
qed

theorem C4_witness:
  "decaying 1000 (the (fire 2 ((startSession None (initial 0))\<lparr>now := 1000\<rparr>)))
   \<and> run [(1100, TimerFires 3), (1200, TimerFires 3)]
        (the (fire 2 ((startSession None (initial 0))\<lparr>now := 1000\<rparr>))) \<noteq> None
   \<and> sorted (rev (tick_progress (drop 1 (log (the (run [(1100, TimerFires 3), (1200, TimerFires 3)]
        (the (fire 2 ((startSession None (initial 0))\<lparr>now := 1000\<rparr>)))))))))
   \<and> tick_progress (log (the (run [(1100, TimerFires 3), (1200, TimerFires 3)]
        (the (fire 2 ((startSession None (initial 0))\<lparr>now := 1000\<rparr>))))))
       = [49 / 50, 24 / 25]
   \<and> progress_at 5 1000 1200 \<le> progress_at 5 1000 1100
   \<and> progress_at 5 1000 1000 = 1
   \<and> baseBlur ((the (fire 2 ((startSession None (initial 0))\<lparr>now := 1000\<rparr>)))\<lparr>now := 6000\<rparr>) = 10"
proof -
  let ?w = "the (fire 2 ((startSession None (initial 0))\<lparr>now := 1000\<rparr>))"
  let ?es = "[(1100 :: int, TimerFires 3), (1200, TimerFires 3)]"
  let ?w1 = "the (run ?es ?w)"
  have d: "decaying 1000 ?w"
    by (simp add: decaying_def tracked_def interval_of_def COUNTDOWN_INTERVAL_def eval_defs)
  have T: "timeoutSeconds ?w = 5" "log ?w = [SessionStarted]" by (simp_all add: eval_defs)
  have es: "\<forall>e \<in> set ?es. is_timer (snd e)" by simp
  have n: "run ?es ?w \<noteq> None" by (simp add: eval_defs)
  then have r: "run ?es ?w = Some ?w1" by simp
  have l: "tick_progress (log ?w1) = [49 / 50, 24 / 25]" by (simp add: eval_defs)
  from C4_progress_never_increases_at_a_fixed_timeout
         [where w = ?w and s = 1000 and es = ?es and w' = ?w1 and T = 5 and t = 1100 and u = 1200]
       d T es r
  obtain new where nw: "log ?w1 = [SessionStarted] @ new" "sorted (rev (tick_progress new))"
    and 2: "progress_at 5 1000 1200 \<le> progress_at 5 1000 1100" "progress_at 5 1000 1000 = 1"
    by auto
  from nw have 1: "sorted (rev (tick_progress (drop 1 (log ?w1))))" by simp
  have r0: "remaining (?w\<lparr>now := 6000\<rparr>) = 0" by (simp add: eval_defs)
  have T6: "0 < timeoutSeconds (?w\<lparr>now := 6000\<rparr>)" using T by simp
  from C4_progress_never_increases_at_a_fixed_timeout [where w = "?w\<lparr>now := 6000\<rparr>"]
  have "0 < timeoutSeconds (?w\<lparr>now := 6000\<rparr>) \<longrightarrow>
        (baseBlur (?w\<lparr>now := 6000\<rparr>) = 10 \<longleftrightarrow> remaining (?w\<lparr>now := 6000\<rparr>) = 0)"
    by blast
  with T6 r0 have 3: "baseBlur (?w\<lparr>now := 6000\<rparr>) = 10" by blast
  from d n 1 l 2 3 show ?thesis by simp
qed


text \<open>
  C6.  \<open>startSession\<close> sets the elapsed-time interval and the grace timeout without
  cancelling the elapsed-time interval or the sampling interval that are pending, and
  \<open>loadDraft\<close> calls it whether or not a session is running; \<open>continueFromHistory\<close> resets
  a running session first.  On a punctual host, a draft loaded during a countdown leaves
  two elapsed-time intervals at once, and two sampling intervals once the grace timeout
  of the loaded session has run.  No handle names the first sampling interval any more,
  so an edit does not cancel it, and since \<open>countdownStart\<close> is \<open>null\<close> after the edit its
  next sample, 10 ms after the keystroke, deletes the text.  The same text continued from
  the history leaves one interval of each kind.
\<close>

theorem C6_loadDraft_starts_a_second_chain:
  "map_option chains (run_on_time draft_session (initial 10000)) = Some (1, 0, 1)
   \<and> map_option chains (run_on_time (draft_session @ [(11250, ClickLoad)]) (initial 10000))
       = Some (2, 1, 1)
   \<and> map_option chains
        (run_on_time (draft_session @ (11250, ClickLoad) # after_load) (initial 10000))
       = Some (2, 0, 2)
   \<and> map_option (\<lambda>w. (destroyed (log w), textArea_value w))
        (run_on_time (draft_session @ (11250, ClickLoad) # after_load
                        @ [(12290, Input (js ''a b c d'')), (12300, TimerFires 5)])
           (initial 10000))
       = Some (1, [])
   \<and> map_option chains
        (run_on_time (draft_session @ (11250, ClickContinue 10200) # after_continue) (initial 10000))
       = Some (1, 0, 1)"
  by (simp add: draft_session_def after_load_def after_continue_def chains_def pending_def
      destroyed_def eval_defs)

end
